theory Spec2Isabelle
  imports Main
begin

section \<open>JavaScript values\<close>

text \<open>
  A request field of the controllers is a value that may be absent (\<open>undefined\<close>),
  explicitly \<open>null\<close>, or a proper value. The operator \<open>||\<close> of the source picks its
  left operand when it is truthy: a proper value that is not \<open>false\<close>, \<open>0\<close> or the
  empty string.
\<close>

datatype 'a js = Undefined | Null | Val 'a

definition truthy :: "('a \<Rightarrow> bool) \<Rightarrow> 'a js \<Rightarrow> bool" where
  "truthy t x = (case x of Val a \<Rightarrow> t a | _ \<Rightarrow> False)"

definition str_truthy :: "string \<Rightarrow> bool" where
  "str_truthy s = (s \<noteq> [])"

definition num_truthy :: "int \<Rightarrow> bool" where
  "num_truthy n = (n \<noteq> 0)"

definition bool_truthy :: "bool \<Rightarrow> bool" where
  "bool_truthy b = b"

definition obj_truthy :: "'a \<Rightarrow> bool" where
  "obj_truthy x = True"

definition or_js :: "('a \<Rightarrow> bool) \<Rightarrow> 'a js \<Rightarrow> 'a js \<Rightarrow> 'a js" where
  "or_js t a b = (if truthy t a then a else b)"

section \<open>Data model\<close>

datatype VideoState = PUBLISHED | TO_TRANSCODE | TO_IMPORT

datatype ThumbnailType = MINIATURE | PREVIEW

text \<open>A \<open>Date\<close> object is kept symbolic: \<open>NewDate s\<close> is \<open>new Date(s)\<close>.\<close>

datatype date = NewDate string

record video =
  v_id :: "int js"
  v_uuid :: string
  v_url :: string
  v_isLive :: bool
  v_name :: "string js"
  v_remote :: bool
  v_category :: "int js"
  v_licence :: "int js"
  v_language :: "string js"
  v_commentsEnabled :: "bool js"
  v_downloadEnabled :: "bool js"
  v_waitTranscoding :: "bool js"
  v_state :: VideoState
  v_nsfw :: "bool js"
  v_description :: "string js"
  v_support :: "string js"
  v_privacy :: "int js"
  v_duration :: int
  v_channelId :: int
  v_originallyPublishedAt :: "date js"

record thumbnail =
  t_type :: ThumbnailType
  t_source :: string
  t_automaticallyGenerated :: "bool js"

record videoFile =
  f_id :: int
  f_videoId :: int
  f_extname :: string
  f_size :: int
  f_resolution :: int
  f_infoHash :: "string js"
  f_torrentFilename :: "string js"

record scheduleUpdate =
  su_updateAt :: string
  su_privacy :: "int js"

datatype VideoImportState = PENDING | SUCCESS | FAILED

record videoImport =
  vi_id :: int
  vi_videoId :: "int js"
  vi_targetUrl :: "string js"
  vi_magnetUri :: "string js"
  vi_torrentName :: "string js"
  vi_state :: VideoImportState
  vi_userId :: int

datatype jobType = Job_torrent_file | Job_magnet_uri | Job_youtube_dl

record jobPayload =
  jp_type :: jobType
  jp_videoImportId :: int
  jp_magnetUri :: "string js"
  jp_fileExt :: "string js"

record subtitle =
  sub_language :: string
  sub_path :: string

section \<open>Collaborator calls, errors and responses\<close>

text \<open>
  Every call the controllers make to a collaborator (persistence, storage, view store,
  federation, job queue, notifier, hooks, loggers) is an event of this type. The log
  of a run lists the calls in the order in which they were issued.
\<close>

datatype call =
    TxBegin
  | TxCommit
  | TxRollback
  | VideoSave video
  | AddAndSaveThumbnail thumbnail
  | SetVideoTags "string list js"
  | SetVideoChannel int
  | ChangeVideoChannelShare int
  | ScheduleUpsert "int js" date "int js"
  | ScheduleDeleteByVideoId "int js"
  | AutoBlacklistVideoIfNeeded bool
  | FederateVideoIfNeeded bool
  | SendDelete video
  | VideoImportCreate videoImport
  | InsertOrReplaceLanguage "int js" string
  | MoveAndProcessCaptionFile subtitle
  | GetYoutubeDLInfo "string js"
  | GetYoutubeDLSubs "string js"
  | ParseTorrent string
  | MagnetDecode "string js"
  | BuildVideoThumbnailsFromReq
  | CreateVideoMiniatureFromExisting ThumbnailType string
  | CreateVideoMiniatureFromUrl ThumbnailType string
  | MoveFile string string
  | ReadFile string
  | CleanUpReqFiles
  | CreateJob jobPayload
  | CreateTorrentAndSetInfoHash int
  | LoadWithVideo int
  | RemoveTorrent videoFile
  | VideoFileSave videoFile
  | DoesVideoIPViewExist string string
  | VideoLoad "int js"
  | SetIPVideoView string string bool
  | LiveAddViewTo "int js"
  | AddVideoView "int js"
  | GetServerActor
  | SendView "int js"
  | NotifyOnNewVideoIfNeeded
  | RunAction string
  | AuditLog string
  | LoggerInfo string
  | LoggerDebug string
  | LoggerWarn string
  | LoggerError string

datatype error = Thrown call | TypeError

datatype resBody =
    NoBody
  | ErrorBody "string js" string
  | ImportJSON videoImport

record response =
  r_status :: nat
  r_body :: resBody

record world =
  log :: "call list"
  resp :: "response option"

definition world0 :: world where
  "world0 = \<lparr>log = [], resp = None\<rparr>"

section \<open>Control flow: exceptions, promises, transactions\<close>

text \<open>
  A piece of code is a function from the state to its result and the new state. The
  result is \<open>Inl e\<close> when the code throws \<open>e\<close>; the state reached at the throw is kept,
  since the effects issued before it have happened.
\<close>

type_synonym ('w, 'a) prog = "'w \<Rightarrow> (error + 'a) \<times> 'w"

definition ret :: "'a \<Rightarrow> ('w, 'a) prog" where
  "ret x = (\<lambda>w. (Inr x, w))"

definition throwE :: "error \<Rightarrow> ('w, 'a) prog" where
  "throwE e = (\<lambda>w. (Inl e, w))"

definition bindP :: "('w, 'a) prog \<Rightarrow> ('a \<Rightarrow> ('w, 'b) prog) \<Rightarrow> ('w, 'b) prog" where
  "bindP m f = (\<lambda>w. case m w of (Inl e, w') \<Rightarrow> (Inl e, w') | (Inr x, w') \<Rightarrow> f x w')"

definition thenP :: "('w, unit) prog \<Rightarrow> ('w, 'b) prog \<Rightarrow> ('w, 'b) prog" where
  "thenP m k = bindP m (\<lambda>_. k)"

primrec seqP :: "('w, unit) prog list \<Rightarrow> ('w, unit) prog" where
  "seqP [] = ret ()"
| "seqP (m # ms) = thenP m (seqP ms)"

definition whenP :: "bool \<Rightarrow> ('w, unit) prog \<Rightarrow> ('w, unit) prog" where
  "whenP c m = (if c then m else ret ())"

definition tryCatch :: "('w, 'a) prog \<Rightarrow> (error \<Rightarrow> ('w, 'a) prog) \<Rightarrow> ('w, 'a) prog" where
  "tryCatch m h = (\<lambda>w. case m w of (Inl e, w') \<Rightarrow> h e w' | (Inr x, w') \<Rightarrow> (Inr x, w'))"

text \<open>Issuing a call records it; the oracle \<open>fails\<close> tells which calls fail.\<close>

definition emit :: "call \<Rightarrow> ('a world_scheme, unit) prog" where
  "emit c = (\<lambda>w. (Inr (), w\<lparr>log := log w @ [c]\<rparr>))"

definition callC :: "(call \<Rightarrow> bool) \<Rightarrow> call \<Rightarrow> ('a world_scheme, unit) prog" where
  "callC fails c = thenP (emit c) (if fails c then throwE (Thrown c) else ret ())"

text \<open>
  A promise is settled either way. \<open>startC\<close> issues an asynchronous call without
  awaiting it: a failure does not throw, it is the rejection of the promise returned.
  \<open>await\<close> throws the rejection into the awaiting code.
\<close>

datatype 'a promise = Rejected error | Fulfilled 'a

definition startC :: "(call \<Rightarrow> bool) \<Rightarrow> call \<Rightarrow> ('a world_scheme, unit promise) prog" where
  "startC fails c =
     thenP (emit c) (ret (if fails c then Rejected (Thrown c) else Fulfilled ()))"

definition await :: "'a promise \<Rightarrow> ('w, 'a) prog" where
  "await p = (case p of Rejected e \<Rightarrow> throwE e | Fulfilled x \<Rightarrow> ret x)"

fun promiseAll :: "unit promise list \<Rightarrow> unit promise" where
  "promiseAll [] = Fulfilled ()"
| "promiseAll (Rejected e # ps) = Rejected e"
| "promiseAll (Fulfilled u # ps) = promiseAll ps"

text \<open>
  \<open>sequelizeTypescript.transaction\<close>: the body runs between begin and commit; when the
  body throws, or the commit fails, the transaction is rolled back and the error is
  thrown on.
\<close>

definition transaction :: "(call \<Rightarrow> bool) \<Rightarrow> ('a world_scheme, 'b) prog \<Rightarrow> ('a world_scheme, 'b) prog" where
  "transaction fails body =
     thenP (emit TxBegin)
       (\<lambda>w. case body w of
              (Inl e, w') \<Rightarrow> (Inl e, w'\<lparr>log := log w' @ [TxRollback]\<rparr>)
            | (Inr x, w') \<Rightarrow>
                if fails TxCommit
                then (Inl (Thrown TxCommit), w'\<lparr>log := log w' @ [TxRollback]\<rparr>)
                else (Inr x, w'\<lparr>log := log w' @ [TxCommit]\<rparr>))"

definition respond :: "nat \<Rightarrow> resBody \<Rightarrow> ('a world_scheme, unit) prog" where
  "respond st b = (\<lambda>w. (Inr (), w\<lparr>resp := Some \<lparr>r_status = st, r_body = b\<rparr>\<rparr>))"

section \<open>viewVideo\<close>

text \<open>
  Modelled from the spec: \<open>isOwned\<close>, a method of the video model, tells whether the
  video is owned locally, that is, not remote.
\<close>

definition isOwned :: "video \<Rightarrow> bool" where
  "isOwned v = (\<not> v_remote v)"

text \<open>The members of \<open>HttpStatusCode\<close> that the controllers use.\<close>

definition NO_CONTENT_204 :: nat where
  "NO_CONTENT_204 = 204"

definition BAD_REQUEST_400 :: nat where
  "BAD_REQUEST_400 = 400"

text \<open>
  \<open>exists\<close> is the answer of the view store to \<open>doesVideoIPViewExist\<close>, \<open>loaded\<close>
  the result of \<open>VideoModel.load\<close> (\<open>None\<close> for \<open>null\<close>), \<open>immutableVideoAttrs\<close> the
  attributes put in \<open>res.locals\<close> by the middleware.
  The promises are created in the order of the source and awaited together at the end.
\<close>

definition viewVideo ::
  "(call \<Rightarrow> bool) \<Rightarrow> bool \<Rightarrow> video option \<Rightarrow> string \<Rightarrow> video \<Rightarrow> (world, unit) prog" where
  "viewVideo fails exists loaded ip immutableVideoAttrs =
     thenP (callC fails (DoesVideoIPViewExist ip (v_uuid immutableVideoAttrs)))
       (if exists then
          seqP [emit (LoggerDebug ''View for ip and video already exists.''),
                respond NO_CONTENT_204 NoBody]
        else
          thenP (callC fails (VideoLoad (v_id immutableVideoAttrs)))
            (case loaded of
               None \<Rightarrow> throwE TypeError
             | Some video \<Rightarrow>
                 bindP (startC fails (SetIPVideoView ip (v_uuid video) (v_isLive video)))
                   (\<lambda>p1.
                 bindP (if v_isLive video \<and> isOwned video
                        then thenP (callC fails (LiveAddViewTo (v_id video))) (ret False)
                        else ret True)
                   (\<lambda>federateView.
                 bindP (if \<not> v_isLive video
                        then bindP (startC fails (AddVideoView (v_id video))) (\<lambda>p. ret [p])
                        else ret [])
                   (\<lambda>p2.
                 bindP (if federateView
                        then thenP (callC fails GetServerActor)
                               (bindP (startC fails (SendView (v_id video))) (\<lambda>p. ret [p]))
                        else ret [])
                   (\<lambda>p3.
                 seqP [await (promiseAll (p1 # p2 @ p3)),
                       callC fails (RunAction ''action:api.video.viewed''),
                       respond NO_CONTENT_204 NoBody]))))))"

section \<open>Import requests\<close>

record importBody =
  b_targetUrl :: "string js"
  b_magnetUri :: "string js"
  b_name :: "string js"
  b_category :: "int js"
  b_licence :: "int js"
  b_language :: "string js"
  b_commentsEnabled :: "bool js"
  b_downloadEnabled :: "bool js"
  b_waitTranscoding :: "bool js"
  b_nsfw :: "bool js"
  b_description :: "string js"
  b_support :: "string js"
  b_privacy :: "int js"
  b_originallyPublishedAt :: "string js"
  b_tags :: "string list js"

record YoutubeDLInfo =
  i_name :: "string js"
  i_description :: "string js"
  i_category :: "int js"
  i_language :: "string js"
  i_licence :: "int js"
  i_nsfw :: "bool js"
  i_tags :: "string list js"
  i_thumbnailUrl :: "string js"
  i_ext :: "string js"
  i_originallyPublishedAt :: "date js"

record upfile =
  uf_path :: string
  uf_originalname :: string

text \<open>
  \<open>req.files\<close> may be absent; each of its fields, when present, is the array of the
  files uploaded under that name.
\<close>

record reqFiles =
  rf_thumbnailfile :: "upfile list option"
  rf_previewfile :: "upfile list option"
  rf_torrentfile :: "upfile list option"

record importReq =
  rq_body :: importBody
  rq_files :: "reqFiles option"
  rq_channelId :: int
  rq_userId :: int

text \<open>
  Values the environment supplies to a run: the identity and URL of a newly built video
  model, the ids assigned by the database on insertion, and the secured path of an
  uploaded torrent (\<open>join(TORRENTS_DIR, getSecureTorrentName(name))\<close>).
\<close>

record fresh =
  newUuid :: string
  newUrl :: string
  newVideoId :: int
  newImportId :: int
  newTorrentPath :: string

text \<open>The name declared by a torrent container or a magnet URI: a string or an array.\<close>

datatype nameField = NameStr "string js" | NameArr "string list"

record parsedTorrent =
  pt_files :: "string list"
  pt_name :: nameField

text \<open>
  Constants declared outside the controllers: the member \<open>PRIVATE\<close> of the privacy enum
  (a non-zero number, here 3), the server error code of a torrent with a wrong number of
  files (kept by its name), and the status that \<open>res.json\<close> sends by default.
\<close>

definition VideoPrivacy_PRIVATE :: int where
  "VideoPrivacy_PRIVATE = 3"

definition INCORRECT_FILES_IN_TORRENT :: string where
  "INCORRECT_FILES_IN_TORRENT = ''INCORRECT_FILES_IN_TORRENT''"

definition OK_200 :: nat where
  "OK_200 = 200"

section \<open>buildVideo\<close>

definition buildVideo :: "fresh \<Rightarrow> int \<Rightarrow> importBody \<Rightarrow> YoutubeDLInfo \<Rightarrow> video" where
  "buildVideo fr channelId body importData =
     \<lparr> v_id = Undefined,
       v_uuid = newUuid fr,
       v_url = newUrl fr,
       v_isLive = False,
       v_name = or_js str_truthy (or_js str_truthy (b_name body) (i_name importData))
                  (Val ''Unknown name''),
       v_remote = False,
       v_category = or_js num_truthy (b_category body) (i_category importData),
       v_licence = or_js num_truthy (b_licence body) (i_licence importData),
       v_language = or_js str_truthy (b_language body) (i_language importData),
       v_commentsEnabled = Val (b_commentsEnabled body \<noteq> Val False),
       v_downloadEnabled = Val (b_downloadEnabled body \<noteq> Val False),
       v_waitTranscoding = or_js bool_truthy (b_waitTranscoding body) (Val False),
       v_state = TO_IMPORT,
       v_nsfw = or_js bool_truthy (or_js bool_truthy (b_nsfw body) (i_nsfw importData))
                  (Val False),
       v_description = or_js str_truthy (b_description body) (i_description importData),
       v_support = or_js str_truthy (b_support body) Null,
       v_privacy = or_js num_truthy (b_privacy body) (Val VideoPrivacy_PRIVATE),
       v_duration = 0,
       v_channelId = channelId,
       v_originallyPublishedAt =
         (if truthy str_truthy (b_originallyPublishedAt body)
          then (case b_originallyPublishedAt body of
                  Val s \<Rightarrow> Val (NewDate s) | _ \<Rightarrow> Undefined)
          else i_originallyPublishedAt importData) \<rparr>"

section \<open>Thumbnails of an import\<close>

definition filesField :: "(reqFiles \<Rightarrow> upfile list option) \<Rightarrow> importReq \<Rightarrow> upfile list option" where
  "filesField field req = (case rq_files req of None \<Rightarrow> None | Some fs \<Rightarrow> field fs)"

definition processThumbnail ::
  "(call \<Rightarrow> bool) \<Rightarrow> importReq \<Rightarrow> video \<Rightarrow> ('a world_scheme, thumbnail js) prog" where
  "processThumbnail fails req video =
     (case filesField rf_thumbnailfile req of
        Some thumbnailField \<Rightarrow>
          (case thumbnailField of
             [] \<Rightarrow> throwE TypeError
           | thumbnailPhysicalFile # _ \<Rightarrow>
               thenP (callC fails (CreateVideoMiniatureFromExisting MINIATURE (uf_path thumbnailPhysicalFile)))
                 (ret (Val \<lparr>t_type = MINIATURE, t_source = uf_path thumbnailPhysicalFile,
                            t_automaticallyGenerated = Val False\<rparr>)))
      | None \<Rightarrow> ret Undefined)"

definition processPreview ::
  "(call \<Rightarrow> bool) \<Rightarrow> importReq \<Rightarrow> video \<Rightarrow> ('a world_scheme, thumbnail js) prog" where
  "processPreview fails req video =
     (case filesField rf_previewfile req of
        Some previewField \<Rightarrow>
          (case previewField of
             [] \<Rightarrow> throwE TypeError
           | previewPhysicalFile # _ \<Rightarrow>
               thenP (callC fails (CreateVideoMiniatureFromExisting PREVIEW (uf_path previewPhysicalFile)))
                 (ret (Val \<lparr>t_type = PREVIEW, t_source = uf_path previewPhysicalFile,
                            t_automaticallyGenerated = Val False\<rparr>)))
      | None \<Rightarrow> ret Undefined)"

text \<open>
  \<open>createVideoMiniatureFromUrl\<close> downloads the image. What the call does is given per
  thumbnail type: it throws before returning, or it returns a promise that rejects
  (the download failed), or one that fulfils with the thumbnail.
\<close>

datatype fetchOutcome = ThrowsSync | RejectsAsync | Succeeds

definition createVideoMiniatureFromUrl ::
  "(ThumbnailType \<Rightarrow> fetchOutcome) \<Rightarrow> string \<Rightarrow> ThumbnailType
     \<Rightarrow> ('a world_scheme, thumbnail js promise) prog" where
  "createVideoMiniatureFromUrl fetch downloadUrl ty =
     thenP (emit (CreateVideoMiniatureFromUrl ty downloadUrl))
       (case fetch ty of
          ThrowsSync \<Rightarrow> throwE (Thrown (CreateVideoMiniatureFromUrl ty downloadUrl))
        | RejectsAsync \<Rightarrow> ret (Rejected (Thrown (CreateVideoMiniatureFromUrl ty downloadUrl)))
        | Succeeds \<Rightarrow>
            ret (Fulfilled (Val \<lparr>t_type = ty, t_source = downloadUrl,
                                 t_automaticallyGenerated = Undefined\<rparr>)))"

text \<open>
  An \<open>async\<close> function never throws into its caller: a throw of its body rejects the
  promise it returns, and a promise returned by its body settles the promise it returns.
\<close>

definition asyncFn :: "('w, 'a promise) prog \<Rightarrow> ('w, 'a promise) prog" where
  "asyncFn body =
     (\<lambda>w. case body w of (Inl e, w') \<Rightarrow> (Inr (Rejected e), w') | (Inr p, w') \<Rightarrow> (Inr p, w'))"

text \<open>
  The body of \<open>processThumbnailFromUrl\<close> returns the promise of
  \<open>createVideoMiniatureFromUrl\<close> from inside \<open>try\<close> without awaiting it: the
  \<open>catch\<close> block sees what the call throws, not what its promise rejects with.
\<close>

definition processThumbnailFromUrl ::
  "(ThumbnailType \<Rightarrow> fetchOutcome) \<Rightarrow> string \<Rightarrow> video
     \<Rightarrow> ('a world_scheme, thumbnail js promise) prog" where
  "processThumbnailFromUrl fetch url video =
     asyncFn
       (tryCatch (createVideoMiniatureFromUrl fetch url MINIATURE)
          (\<lambda>err. thenP (emit (LoggerWarn ''Cannot generate video thumbnail.''))
                    (ret (Fulfilled Undefined))))"

definition processPreviewFromUrl ::
  "(ThumbnailType \<Rightarrow> fetchOutcome) \<Rightarrow> string \<Rightarrow> video
     \<Rightarrow> ('a world_scheme, thumbnail js promise) prog" where
  "processPreviewFromUrl fetch url video =
     asyncFn
       (tryCatch (createVideoMiniatureFromUrl fetch url PREVIEW)
          (\<lambda>err. thenP (emit (LoggerWarn ''Cannot generate video preview.''))
                    (ret (Fulfilled Undefined))))"

section \<open>insertIntoDB\<close>

text \<open>
  \<open>video.save\<close> assigns the database id to the video; \<open>VideoImportModel.create\<close>
  returns the import record with its own id.
\<close>

record videoImportAttributes =
  ia_targetUrl :: "string js"
  ia_magnetUri :: "string js"
  ia_torrentName :: "string js"
  ia_state :: VideoImportState
  ia_userId :: int

definition insertIntoDB ::
  "(call \<Rightarrow> bool) \<Rightarrow> fresh \<Rightarrow> video \<Rightarrow> thumbnail js \<Rightarrow> thumbnail js \<Rightarrow> string list js
     \<Rightarrow> videoImportAttributes \<Rightarrow> ('a world_scheme, videoImport) prog" where
  "insertIntoDB fails fr video thumbnailModel previewModel tags videoImportAttributes =
     transaction fails
       (let videoCreated = video\<lparr>v_id := Val (newVideoId fr)\<rparr>;
            videoImport =
              \<lparr> vi_id = newImportId fr,
                vi_videoId = v_id videoCreated,
                vi_targetUrl = ia_targetUrl videoImportAttributes,
                vi_magnetUri = ia_magnetUri videoImportAttributes,
                vi_torrentName = ia_torrentName videoImportAttributes,
                vi_state = ia_state videoImportAttributes,
                vi_userId = ia_userId videoImportAttributes \<rparr>
        in thenP
             (seqP [callC fails (VideoSave videoCreated),
                    (case thumbnailModel of
                       Val t \<Rightarrow> callC fails (AddAndSaveThumbnail t) | _ \<Rightarrow> ret ()),
                    (case previewModel of
                       Val t \<Rightarrow> callC fails (AddAndSaveThumbnail t) | _ \<Rightarrow> ret ()),
                    callC fails (AutoBlacklistVideoIfNeeded True),
                    callC fails (SetVideoTags tags),
                    callC fails (VideoImportCreate videoImport)])
             (ret videoImport))"

section \<open>addTorrentImport\<close>

text \<open>\<open>isArray(x) ? x[0] : x\<close> on the declared name.\<close>

definition declaredName :: "nameField \<Rightarrow> string js" where
  "declaredName n =
     (case n of
        NameArr xs \<Rightarrow> (case xs of [] \<Rightarrow> Undefined | x # _ \<Rightarrow> Val x)
      | NameStr s \<Rightarrow> s)"

text \<open>The import data \<open>{ name: videoName }\<close>: every other field is absent.\<close>

definition onlyName :: "string js \<Rightarrow> YoutubeDLInfo" where
  "onlyName videoName =
     \<lparr> i_name = videoName, i_description = Undefined, i_category = Undefined,
       i_language = Undefined, i_licence = Undefined, i_nsfw = Undefined,
       i_tags = Undefined, i_thumbnailUrl = Undefined, i_ext = Undefined,
       i_originallyPublishedAt = Undefined \<rparr>"

text \<open>
  The part of \<open>addTorrentImport\<close> after the source has been resolved to a working
  name: build the video, the thumbnails, insert, create the job, answer.
\<close>

definition addTorrentImport_insert ::
  "(call \<Rightarrow> bool) \<Rightarrow> fresh \<Rightarrow> importReq \<Rightarrow> bool \<Rightarrow> string js \<Rightarrow> string js \<Rightarrow> string js
     \<Rightarrow> (world, unit) prog" where
  "addTorrentImport_insert fails fr req isFile videoName torrentName magnetUri =
     (let body = rq_body req;
          video = buildVideo fr (rq_channelId req) body (onlyName videoName)
      in bindP (processThumbnail fails req video) (\<lambda>thumbnailModel.
         bindP (processPreview fails req video) (\<lambda>previewModel.
         let tags = or_js obj_truthy (b_tags body) Undefined;
             videoImportAttributes =
               \<lparr> ia_targetUrl = Undefined, ia_magnetUri = magnetUri,
                 ia_torrentName = torrentName, ia_state = PENDING,
                 ia_userId = rq_userId req \<rparr>
         in bindP (insertIntoDB fails fr video thumbnailModel previewModel tags
                     videoImportAttributes) (\<lambda>videoImport.
            let payload =
                  \<lparr> jp_type = (if isFile then Job_torrent_file else Job_magnet_uri),
                    jp_videoImportId = vi_id videoImport,
                    jp_magnetUri = magnetUri,
                    jp_fileExt = Undefined \<rparr>
            in seqP [callC fails (CreateJob payload),
                     callC fails (AuditLog ''video-imports''),
                     respond OK_200 (ImportJSON videoImport)]))))"

text \<open>
  \<open>parsed\<close> is what \<open>parseTorrent\<close> returns for the uploaded file, \<open>decoded\<close> the
  name that \<open>magnetUtil.decode\<close> returns for the magnet URI.
\<close>

definition addTorrentImport ::
  "(call \<Rightarrow> bool) \<Rightarrow> fresh \<Rightarrow> parsedTorrent \<Rightarrow> nameField \<Rightarrow> importReq \<Rightarrow> upfile option
     \<Rightarrow> (world, unit) prog" where
  "addTorrentImport fails fr parsed decoded req torrentfile =
     (case torrentfile of
        Some tf \<Rightarrow>
          (let torrentName = uf_originalname tf
           in thenP
                (seqP [callC fails (MoveFile (uf_path tf) (newTorrentPath fr)),
                       callC fails (ReadFile (newTorrentPath fr)),
                       callC fails (ParseTorrent (newTorrentPath fr))])
                (if length (pt_files parsed) \<noteq> 1 then
                   seqP [callC fails CleanUpReqFiles,
                         respond BAD_REQUEST_400
                           (ErrorBody (Val INCORRECT_FILES_IN_TORRENT)
                              ''Torrents with only 1 file are supported.'')]
                 else
                   addTorrentImport_insert fails fr req True
                     (declaredName (pt_name parsed)) (Val torrentName) Undefined))
      | None \<Rightarrow>
          (let magnetUri = b_magnetUri (rq_body req)
           in thenP (callC fails (MagnetDecode magnetUri))
                (addTorrentImport_insert fails fr req False
                   (declaredName decoded) Undefined magnetUri)))"

section \<open>addYoutubeDLImport\<close>

text \<open>
  The subtitle block: one \<open>try\<close> around the listing of the subtitles and the whole
  loop over them, one \<open>catch\<close> that logs a warning.
\<close>

definition importSubtitle ::
  "(call \<Rightarrow> bool) \<Rightarrow> int js \<Rightarrow> subtitle \<Rightarrow> (world, unit) prog" where
  "importSubtitle fails videoId sub =
     seqP [callC fails (MoveAndProcessCaptionFile sub),
           transaction fails (callC fails (InsertOrReplaceLanguage videoId (sub_language sub)))]"

definition importSubtitles ::
  "(call \<Rightarrow> bool) \<Rightarrow> string js \<Rightarrow> int js \<Rightarrow> subtitle list \<Rightarrow> (world, unit) prog" where
  "importSubtitles fails targetUrl videoId subtitles =
     tryCatch
       (seqP [callC fails (GetYoutubeDLSubs targetUrl),
              emit (LoggerInfo ''Will create subtitles from youtube import.''),
              seqP (map (importSubtitle fails videoId) subtitles)])
       (\<lambda>err. emit (LoggerWarn ''Cannot get video subtitles.''))"

text \<open>The second thumbnail source: the extractor's URL, when no file was uploaded.\<close>

definition thumbnailFallback ::
  "thumbnail js \<Rightarrow> string js \<Rightarrow> (string \<Rightarrow> (world, thumbnail js promise) prog)
     \<Rightarrow> (world, thumbnail js) prog" where
  "thumbnailFallback model thumbnailUrl fromUrl =
     (if \<not> truthy obj_truthy model \<and> truthy str_truthy thumbnailUrl
      then (case thumbnailUrl of
              Val url \<Rightarrow> bindP (fromUrl url) await
            | _ \<Rightarrow> ret model)
      else ret model)"

text \<open>
  \<open>info\<close> is what the extractor returns for the URL, \<open>subtitles\<close> the subtitles it
  lists. After \<open>insertIntoDB\<close> the id of \<open>video\<close> is the one saved, which is the
  \<open>videoId\<close> of the import record.
\<close>

definition addYoutubeDLImport ::
  "(call \<Rightarrow> bool) \<Rightarrow> fresh \<Rightarrow> YoutubeDLInfo \<Rightarrow> subtitle list \<Rightarrow> (ThumbnailType \<Rightarrow> fetchOutcome)
     \<Rightarrow> importReq \<Rightarrow> (world, unit) prog" where
  "addYoutubeDLImport fails fr info subtitles fetch req =
     (let body = rq_body req;
          targetUrl = b_targetUrl body
      in bindP
           (tryCatch
              (thenP (callC fails (GetYoutubeDLInfo targetUrl)) (ret True))
              (\<lambda>err. thenP
                 (seqP [emit (LoggerInfo ''Cannot fetch information from import for URL.''),
                        respond BAD_REQUEST_400
                          (ErrorBody Undefined ''Cannot fetch remote information of this URL.'')])
                 (ret False)))
           (\<lambda>fetched.
              if \<not> fetched then ret ()
              else
                let video = buildVideo fr (rq_channelId req) body info in
                bindP (processThumbnail fails req video) (\<lambda>thumbnailModel0.
                bindP (thumbnailFallback thumbnailModel0 (i_thumbnailUrl info)
                         (\<lambda>url. processThumbnailFromUrl fetch url video)) (\<lambda>thumbnailModel.
                bindP (processPreview fails req video) (\<lambda>previewModel0.
                bindP (thumbnailFallback previewModel0 (i_thumbnailUrl info)
                         (\<lambda>url. processPreviewFromUrl fetch url video)) (\<lambda>previewModel.
                let tags = or_js obj_truthy (b_tags body) (i_tags info);
                    videoImportAttributes =
                      \<lparr> ia_targetUrl = targetUrl, ia_magnetUri = Undefined,
                        ia_torrentName = Undefined, ia_state = PENDING,
                        ia_userId = rq_userId req \<rparr>
                in bindP (insertIntoDB fails fr video thumbnailModel previewModel tags
                            videoImportAttributes) (\<lambda>videoImport.
                   let payload =
                         \<lparr> jp_type = Job_youtube_dl,
                           jp_videoImportId = vi_id videoImport,
                           jp_magnetUri = Undefined,
                           jp_fileExt =
                             (case or_js str_truthy (i_ext info) (Val ''mp4'') of
                                Val e \<Rightarrow> Val (''.'' @ e) | _ \<Rightarrow> Undefined) \<rparr>
                   in seqP [importSubtitles fails targetUrl (vi_videoId videoImport) subtitles,
                            callC fails (CreateJob payload),
                            callC fails (AuditLog ''video-imports''),
                            respond OK_200 (ImportJSON videoImport)])))))))"

section \<open>addVideoImport\<close>

text \<open>\<open>req.files?.['torrentfile']?.[0]\<close>\<close>

definition firstTorrentFile :: "importReq \<Rightarrow> upfile option" where
  "firstTorrentFile req =
     (case filesField rf_torrentfile req of
        None \<Rightarrow> None
      | Some fs \<Rightarrow> (case fs of [] \<Rightarrow> None | f # _ \<Rightarrow> Some f))"

definition addVideoImport ::
  "(call \<Rightarrow> bool) \<Rightarrow> fresh \<Rightarrow> YoutubeDLInfo \<Rightarrow> subtitle list \<Rightarrow> (ThumbnailType \<Rightarrow> fetchOutcome)
     \<Rightarrow> parsedTorrent \<Rightarrow> nameField \<Rightarrow> importReq \<Rightarrow> (world, unit) prog" where
  "addVideoImport fails fr info subtitles fetch parsed decoded req =
     (if truthy str_truthy (b_targetUrl (rq_body req))
      then addYoutubeDLImport fails fr info subtitles fetch req
      else
        let file = firstTorrentFile req
        in if truthy str_truthy (b_magnetUri (rq_body req)) \<or> file \<noteq> None
           then addTorrentImport fails fr parsed decoded req file
           else ret ())"

section \<open>updateVideo\<close>

record videoUpdate =
  p_name :: "string js"
  p_category :: "int js"
  p_licence :: "int js"
  p_language :: "string js"
  p_nsfw :: "bool js"
  p_waitTranscoding :: "bool js"
  p_support :: "string js"
  p_description :: "string js"
  p_commentsEnabled :: "bool js"
  p_downloadEnabled :: "bool js"
  p_originallyPublishedAt :: "string js"
  p_privacy :: "int js"
  p_tags :: "string list js"
  p_scheduleUpdate :: "scheduleUpdate js"

text \<open>
  Methods of the video model that the controller calls and whose bodies are in the model
  class: which privacy values allow federation, whether a change of privacy makes the
  video a new one for the federation, whether the video is confidential. The last field
  is what \<open>parseInt\<close> reads from a number that \<open>toString\<close> prints in exponent
  notation (see \<open>parseInt_toString\<close> below).
\<close>

record videoMethods =
  isPrivacyForFederation :: "int js \<Rightarrow> bool"
  isNewVideo :: "video \<Rightarrow> int \<Rightarrow> bool"
  isConfidential :: "video \<Rightarrow> bool"
  parseIntOfExponent :: "int \<Rightarrow> int"

text \<open>
  \<open>parseInt(n.toString(), 10)\<close> for an integer \<open>n\<close>. Below \<open>10^21\<close> in absolute
  value \<open>toString\<close> prints the decimal digits of \<open>n\<close> and \<open>parseInt\<close> reads \<open>n\<close>
  back. From \<open>10^21\<close> on \<open>toString\<close> prints exponent notation, and \<open>parseInt\<close>
  reads only what stands before the point or the exponent: a number from 1 to 9 in
  absolute value, which depends on the floating-point representation and is given by the
  environment. Every value of the \<open>VideoPrivacy\<close> enumeration is far below \<open>10^21\<close>.
\<close>

definition parseInt_toString :: "videoMethods \<Rightarrow> int \<Rightarrow> int" where
  "parseInt_toString m n = (if \<bar>n\<bar> < 10 ^ 21 then n else parseIntOfExponent m n)"

text \<open>
  Modelled from the spec: \<open>hasPrivacyForFederation\<close>, a method of the video model, is
  the privacy-dependent predicate "federation-eligible" applied to the video's privacy.
\<close>

definition hasPrivacyForFederation :: "videoMethods \<Rightarrow> video \<Rightarrow> bool" where
  "hasPrivacyForFederation m v = isPrivacyForFederation m (v_privacy v)"

text \<open>
  Modelled from the spec: \<open>setPrivacy\<close>, a method of the video model, stores the new
  privacy value in the descriptor.
\<close>

definition setPrivacy :: "int \<Rightarrow> video \<Rightarrow> video" where
  "setPrivacy newPrivacy v = v\<lparr>v_privacy := Val newPrivacy\<rparr>"

text \<open>
  Modelled from the spec: \<open>toJSON\<close> takes the snapshot of the descriptor's fields, and
  \<open>resetSequelizeInstance\<close> of the database helpers writes every field of a snapshot
  back into the instance.
\<close>

definition toJSON :: "video \<Rightarrow> video" where
  "toJSON v = v"

record uworld = world +
  inst :: video

definition getInst :: "(uworld, video) prog" where
  "getInst = (\<lambda>w. (Inr (inst w), w))"

definition modifyInst :: "(video \<Rightarrow> video) \<Rightarrow> (uworld, unit) prog" where
  "modifyInst f = (\<lambda>w. (Inr (), w\<lparr>inst := f (inst w)\<rparr>))"

definition resetSequelizeInstance :: "video \<Rightarrow> (uworld, unit) prog" where
  "resetSequelizeInstance savedFields = (\<lambda>w. (Inr (), w\<lparr>inst := savedFields\<rparr>))"

text \<open>The assignments of the plain fields, each guarded by \<open>!== undefined\<close>.\<close>

definition updateFields :: "videoUpdate \<Rightarrow> (uworld, unit) prog" where
  "updateFields videoInfoToUpdate =
     seqP
       [whenP (p_name videoInfoToUpdate \<noteq> Undefined)
          (modifyInst (\<lambda>v. v\<lparr>v_name := p_name videoInfoToUpdate\<rparr>)),
        whenP (p_category videoInfoToUpdate \<noteq> Undefined)
          (modifyInst (\<lambda>v. v\<lparr>v_category := p_category videoInfoToUpdate\<rparr>)),
        whenP (p_licence videoInfoToUpdate \<noteq> Undefined)
          (modifyInst (\<lambda>v. v\<lparr>v_licence := p_licence videoInfoToUpdate\<rparr>)),
        whenP (p_language videoInfoToUpdate \<noteq> Undefined)
          (modifyInst (\<lambda>v. v\<lparr>v_language := p_language videoInfoToUpdate\<rparr>)),
        whenP (p_nsfw videoInfoToUpdate \<noteq> Undefined)
          (modifyInst (\<lambda>v. v\<lparr>v_nsfw := p_nsfw videoInfoToUpdate\<rparr>)),
        whenP (p_waitTranscoding videoInfoToUpdate \<noteq> Undefined)
          (modifyInst (\<lambda>v. v\<lparr>v_waitTranscoding := p_waitTranscoding videoInfoToUpdate\<rparr>)),
        whenP (p_support videoInfoToUpdate \<noteq> Undefined)
          (modifyInst (\<lambda>v. v\<lparr>v_support := p_support videoInfoToUpdate\<rparr>)),
        whenP (p_description videoInfoToUpdate \<noteq> Undefined)
          (modifyInst (\<lambda>v. v\<lparr>v_description := p_description videoInfoToUpdate\<rparr>)),
        whenP (p_commentsEnabled videoInfoToUpdate \<noteq> Undefined)
          (modifyInst (\<lambda>v. v\<lparr>v_commentsEnabled := p_commentsEnabled videoInfoToUpdate\<rparr>)),
        whenP (p_downloadEnabled videoInfoToUpdate \<noteq> Undefined)
          (modifyInst (\<lambda>v. v\<lparr>v_downloadEnabled := p_downloadEnabled videoInfoToUpdate\<rparr>)),
        (case p_originallyPublishedAt videoInfoToUpdate of
           Val d \<Rightarrow> modifyInst (\<lambda>v. v\<lparr>v_originallyPublishedAt := Val (NewDate d)\<rparr>)
         | _ \<Rightarrow> ret ())]"

text \<open>
  The privacy block; its result is the local variable \<open>isNewVideo\<close>. The new privacy
  is \<open>parseInt(privacy.toString(), 10)\<close>; on \<open>null\<close> the call of \<open>toString\<close> throws.
\<close>

definition updatePrivacy ::
  "(call \<Rightarrow> bool) \<Rightarrow> videoMethods \<Rightarrow> bool \<Rightarrow> videoUpdate \<Rightarrow> (uworld, bool) prog" where
  "updatePrivacy fails m hadPrivacyForFederation videoInfoToUpdate =
     (case p_privacy videoInfoToUpdate of
        Undefined \<Rightarrow> ret False
      | Null \<Rightarrow> throwE TypeError
      | Val privacy \<Rightarrow>
          bindP getInst (\<lambda>v0.
          let isNewVideo = isNewVideo m v0 privacy;
              newPrivacy = parseInt_toString m privacy
          in thenP (modifyInst (setPrivacy newPrivacy))
               (bindP getInst (\<lambda>videoInstance.
                thenP
                  (whenP (hadPrivacyForFederation \<and> \<not> hasPrivacyForFederation m videoInstance)
                     (callC fails (SendDelete videoInstance)))
                  (ret isNewVideo)))))"

definition updateSchedule ::
  "(call \<Rightarrow> bool) \<Rightarrow> videoUpdate \<Rightarrow> video \<Rightarrow> (uworld, unit) prog" where
  "updateSchedule fails videoInfoToUpdate videoInstanceUpdated =
     (case p_scheduleUpdate videoInfoToUpdate of
        Val su \<Rightarrow>
          callC fails (ScheduleUpsert (v_id videoInstanceUpdated) (NewDate (su_updateAt su))
                         (or_js num_truthy (su_privacy su) Null))
      | Null \<Rightarrow> callC fails (ScheduleDeleteByVideoId (v_id videoInstanceUpdated))
      | Undefined \<Rightarrow> ret ())"

text \<open>
  The function passed to \<open>sequelizeTypescript.transaction\<close>. \<open>channel\<close> is the id of
  \<open>res.locals.videoChannel\<close> when there is one; \<open>$set('VideoChannel', ...)\<close> and the
  assignment after it move the instance to that channel.
\<close>

definition updateVideo_body ::
  "(call \<Rightarrow> bool) \<Rightarrow> videoMethods \<Rightarrow> bool \<Rightarrow> thumbnail js \<Rightarrow> thumbnail js \<Rightarrow> int option
     \<Rightarrow> videoUpdate \<Rightarrow> (uworld, unit) prog" where
  "updateVideo_body fails m hadPrivacyForFederation thumbnailModel previewModel channel
       videoInfoToUpdate =
     bindP getInst (\<lambda>v0.
     let oldVideoChannel = v_channelId v0 in
     thenP (updateFields videoInfoToUpdate)
       (bindP (updatePrivacy fails m hadPrivacyForFederation videoInfoToUpdate) (\<lambda>isNewVideo.
        bindP getInst (\<lambda>videoInstanceUpdated.
        seqP
          [callC fails (VideoSave videoInstanceUpdated),
           (case thumbnailModel of
              Val t \<Rightarrow> callC fails (AddAndSaveThumbnail t) | _ \<Rightarrow> ret ()),
           (case previewModel of
              Val t \<Rightarrow> callC fails (AddAndSaveThumbnail t) | _ \<Rightarrow> ret ()),
           whenP (p_tags videoInfoToUpdate \<noteq> Undefined)
             (callC fails (SetVideoTags (p_tags videoInfoToUpdate))),
           (case channel of
              Some c \<Rightarrow>
                whenP (v_channelId videoInstanceUpdated \<noteq> c)
                  (seqP [callC fails (SetVideoChannel c),
                         modifyInst (\<lambda>v. v\<lparr>v_channelId := c\<rparr>),
                         whenP hadPrivacyForFederation
                           (callC fails (ChangeVideoChannelShare oldVideoChannel))])
            | None \<Rightarrow> ret ()),
           updateSchedule fails videoInfoToUpdate videoInstanceUpdated,
           callC fails (AutoBlacklistVideoIfNeeded False),
           callC fails (FederateVideoIfNeeded isNewVideo),
           callC fails (AuditLog ''videos''),
           emit (LoggerInfo ''Video updated.'')]))))"

text \<open>
  \<open>thumbnailModel\<close> and \<open>previewModel\<close> are what \<open>buildVideoThumbnailsFromReq\<close>
  returns for the uploaded files.
\<close>

definition updateVideo ::
  "(call \<Rightarrow> bool) \<Rightarrow> videoMethods \<Rightarrow> thumbnail js \<Rightarrow> thumbnail js \<Rightarrow> int option
     \<Rightarrow> videoUpdate \<Rightarrow> (uworld, unit) prog" where
  "updateVideo fails m thumbnailModel previewModel channel videoInfoToUpdate =
     bindP getInst (\<lambda>videoInstance.
     let videoFieldsSave = toJSON videoInstance;
         wasConfidentialVideo = isConfidential m videoInstance;
         hadPrivacyForFederation = hasPrivacyForFederation m videoInstance
     in seqP
          [callC fails BuildVideoThumbnailsFromReq,
           tryCatch
             (seqP [transaction fails
                      (updateVideo_body fails m hadPrivacyForFederation thumbnailModel
                         previewModel channel videoInfoToUpdate),
                    whenP wasConfidentialVideo (callC fails NotifyOnNewVideoIfNeeded),
                    callC fails (RunAction ''action:api.video.updated'')])
             (\<lambda>err. thenP (resetSequelizeInstance videoFieldsSave) (throwE err)),
           respond NO_CONTENT_204 NoBody])"

section \<open>createTorrentAndSetInfoHashAsync\<close>

text \<open>
  Modelled from the spec: \<open>createTorrentAndSetInfoHash\<close> of the webtorrent helpers
  produces the torrent artifact and stores its info-hash and torrent filename in the
  file object it is given. \<open>made\<close> is that pair; \<open>reloaded\<close> is what
  \<open>VideoFileModel.loadWithVideo\<close> finds for the id afterwards.
\<close>

definition createTorrentAndSetInfoHashAsync ::
  "(call \<Rightarrow> bool) \<Rightarrow> string \<times> string \<Rightarrow> videoFile option \<Rightarrow> videoFile \<Rightarrow> (world, unit) prog" where
  "createTorrentAndSetInfoHashAsync fails made reloaded fileArg0 =
     thenP (callC fails (CreateTorrentAndSetInfoHash (f_id fileArg0)))
       (let fileArg = fileArg0\<lparr>f_infoHash := Val (fst made),
                                f_torrentFilename := Val (snd made)\<rparr>
        in thenP (callC fails (LoadWithVideo (f_id fileArg)))
             (case reloaded of
                None \<Rightarrow> callC fails (RemoveTorrent fileArg)
              | Some refreshedFile \<Rightarrow>
                  callC fails
                    (VideoFileSave
                       (refreshedFile\<lparr>f_infoHash := f_infoHash fileArg,
                                      f_torrentFilename := f_torrentFilename fileArg\<rparr>))))"

text \<open>
  The call in \<open>addVideo\<close>: the promise is not awaited, and the \<open>catch\<close> attached to
  it logs whatever the function throws.
\<close>

definition addVideo_torrentStage ::
  "(call \<Rightarrow> bool) \<Rightarrow> string \<times> string \<Rightarrow> videoFile option \<Rightarrow> videoFile \<Rightarrow> (world, unit) prog" where
  "addVideo_torrentStage fails made reloaded videoFile =
     tryCatch (createTorrentAndSetInfoHashAsync fails made reloaded videoFile)
       (\<lambda>err. emit (LoggerError ''Cannot create torrent file for video''))"

section \<open>Sample inputs\<close>

definition sampleVideo :: video where
  "sampleVideo =
     \<lparr> v_id = Val 7, v_uuid = ''u7'', v_url = ''https://local/videos/watch/u7'',
       v_isLive = False, v_name = Val ''old name'', v_remote = False,
       v_category = Val 1, v_licence = Val 1, v_language = Val ''en'',
       v_commentsEnabled = Val True, v_downloadEnabled = Val True,
       v_waitTranscoding = Val False, v_state = PUBLISHED, v_nsfw = Val False,
       v_description = Val ''text'', v_support = Null, v_privacy = Val 1, v_duration = 60,
       v_channelId = 3, v_originallyPublishedAt = Val (NewDate ''2020-01-01'') \<rparr>"

definition noBody :: importBody where
  "noBody =
     \<lparr> b_targetUrl = Undefined, b_magnetUri = Undefined, b_name = Undefined,
       b_category = Undefined, b_licence = Undefined, b_language = Undefined,
       b_commentsEnabled = Undefined, b_downloadEnabled = Undefined,
       b_waitTranscoding = Undefined, b_nsfw = Undefined, b_description = Undefined,
       b_support = Undefined, b_privacy = Undefined, b_originallyPublishedAt = Undefined,
       b_tags = Undefined \<rparr>"

definition noPatch :: videoUpdate where
  "noPatch =
     \<lparr> p_name = Undefined, p_category = Undefined, p_licence = Undefined,
       p_language = Undefined, p_nsfw = Undefined, p_waitTranscoding = Undefined,
       p_support = Undefined, p_description = Undefined, p_commentsEnabled = Undefined,
       p_downloadEnabled = Undefined, p_originallyPublishedAt = Undefined,
       p_privacy = Undefined, p_tags = Undefined, p_scheduleUpdate = Undefined \<rparr>"

definition sampleFresh :: fresh where
  "sampleFresh =
     \<lparr> newUuid = ''u9'', newUrl = ''https://local/videos/watch/u9'', newVideoId = 9,
       newImportId = 4, newTorrentPath = ''torrents/secure.torrent'' \<rparr>"

definition sampleInfo :: YoutubeDLInfo where
  "sampleInfo = (onlyName (Val ''remote name''))\<lparr>i_thumbnailUrl := Val ''http://x/t.jpg''\<rparr>"

definition neverFails :: "call \<Rightarrow> bool" where
  "neverFails c = False"

text \<open>
  The first decimal digit of a number; the sample methods below let \<open>parseInt\<close> read
  it, with the sign, from a number printed in exponent notation, as for \<open>3e+21\<close>.
\<close>

fun leadingDigit :: "nat \<Rightarrow> nat" where
  "leadingDigit n = (if n < 10 then n else leadingDigit (n div 10))"

declare leadingDigit.simps [simp del]

definition publicOrUnlisted :: videoMethods where
  "publicOrUnlisted =
     \<lparr> isPrivacyForFederation = (\<lambda>p. p = Val 1 \<or> p = Val 2),
       isNewVideo = (\<lambda>v p. \<not> (v_privacy v = Val 1 \<or> v_privacy v = Val 2) \<and> (p = 1 \<or> p = 2)),
       isConfidential = (\<lambda>v. \<not> (v_privacy v = Val 1 \<or> v_privacy v = Val 2)),
       parseIntOfExponent = (\<lambda>n. sgn n * int (leadingDigit (nat \<bar>n\<bar>))) \<rparr>"

section \<open>Auxiliary definitions for the proofs\<close>

subsection \<open>Further sample inputs\<close>

text \<open>Videos, files, requests and failure oracles at which the theorems are evaluated.\<close>

definition liveRemote :: video where
  "liveRemote = sampleVideo\<lparr>v_isLive := True, v_remote := True\<rparr>"

definition liveOwned :: video where
  "liveOwned = sampleVideo\<lparr>v_isLive := True\<rparr>"

definition staleFile :: videoFile where
  "staleFile =
     \<lparr> f_id = 5, f_videoId = 7, f_extname = ''.mp4'', f_size = 100, f_resolution = 720,
       f_infoHash = Undefined, f_torrentFilename = Undefined \<rparr>"

definition freshFile :: videoFile where
  "freshFile = staleFile\<lparr>f_size := 250\<rparr>"

definition removeFails :: "call \<Rightarrow> bool" where
  "removeFails c = (case c of RemoveTorrent f \<Rightarrow> True | _ \<Rightarrow> False)"

definition explicitBody :: importBody where
  "explicitBody =
     noBody\<lparr> b_name := Val ''my name'', b_category := Val 5, b_licence := Val 2,
             b_language := Val ''fr'', b_nsfw := Val True, b_description := Val ''mine'',
             b_originallyPublishedAt := Val ''2021-05-05'', b_waitTranscoding := Val True,
             b_support := Val ''donate'', b_privacy := Val 1 \<rparr>"

definition falsyBody :: importBody where
  "falsyBody =
     noBody\<lparr> b_name := Val '''', b_category := Val 0, b_licence := Val 0,
             b_language := Val '''', b_nsfw := Val False, b_description := Val '''',
             b_originallyPublishedAt := Val '''' \<rparr>"

definition fullInfo :: YoutubeDLInfo where
  "fullInfo =
     \<lparr> i_name = Val ''remote name'', i_description = Val ''remote text'', i_category = Val 9,
       i_language = Val ''en'', i_licence = Val 4, i_nsfw = Val True, i_tags = Val [''t''],
       i_thumbnailUrl = Val ''http://x/t.jpg'', i_ext = Val ''webm'',
       i_originallyPublishedAt = Val (NewDate ''2019-01-01'') \<rparr>"

definition twoFiles :: parsedTorrent where
  "twoFiles = \<lparr>pt_files = [''a.mp4'', ''b.mp4''], pt_name = NameStr (Val ''two files'')\<rparr>"

definition sampleTorrentFile :: upfile where
  "sampleTorrentFile = \<lparr>uf_path = ''tmp/upload.torrent'', uf_originalname = ''my.torrent''\<rparr>"

definition torrentReq :: importReq where
  "torrentReq =
     \<lparr> rq_body = noBody,
       rq_files = Some \<lparr>rf_thumbnailfile = None, rf_previewfile = None,
                        rf_torrentfile = Some [sampleTorrentFile]\<rparr>,
       rq_channelId = 3, rq_userId = 1 \<rparr>"

definition urlReq :: importReq where
  "urlReq =
     \<lparr> rq_body = noBody\<lparr>b_targetUrl := Val ''http://x/v''\<rparr>,
       rq_files = None, rq_channelId = 3, rq_userId = 1 \<rparr>"

definition urlAndMagnetReq :: importReq where
  "urlAndMagnetReq =
     \<lparr> rq_body = noBody\<lparr>b_targetUrl := Val ''http://x/v'', b_magnetUri := Val ''magnet:?xt=urn:btih:c12f''\<rparr>,
       rq_files = None, rq_channelId = 3, rq_userId = 1 \<rparr>"

definition emptyReq :: importReq where
  "emptyReq = \<lparr>rq_body = noBody, rq_files = None, rq_channelId = 3, rq_userId = 1\<rparr>"

definition allSucceed :: "ThumbnailType \<Rightarrow> fetchOutcome" where
  "allSucceed ty = Succeeds"

definition downloadRejects :: "ThumbnailType \<Rightarrow> fetchOutcome" where
  "downloadRejects ty = RejectsAsync"

text \<open>A request without its magnet URI, and without its torrent file.\<close>

definition withoutMagnet :: "importReq \<Rightarrow> importReq" where
  "withoutMagnet req = req\<lparr>rq_body := (rq_body req)\<lparr>b_magnetUri := Undefined\<rparr>\<rparr>"

definition withoutTorrent :: "importReq \<Rightarrow> importReq" where
  "withoutTorrent req =
     req\<lparr>rq_files := (case rq_files req of None \<Rightarrow> None
                         | Some fs \<Rightarrow> Some (fs\<lparr>rf_torrentfile := None\<rparr>))\<rparr>"

subsection \<open>The parts of an import from a URL\<close>

text \<open>The calls that import one subtitle when none of them fails.\<close>

definition captionCalls :: "int js \<Rightarrow> subtitle \<Rightarrow> call list" where
  "captionCalls videoId p =
     [MoveAndProcessCaptionFile p, TxBegin, InsertOrReplaceLanguage videoId (sub_language p),
      TxCommit]"

text \<open>
  \<open>addYoutubeDLImport\<close> after the extractor has answered, cut in two: \<open>ytdlInsert\<close>
  is the part from \<open>buildVideo\<close> to \<open>insertIntoDB\<close>, \<open>ytdlFinish\<close> the part from
  the subtitles to the response, and \<open>ytdlPayload\<close> the payload of the job. Lemma
  \<open>ytdl_split\<close> below shows that the function is the first part followed by the second.
\<close>

definition ytdlInsert ::
  "(call \<Rightarrow> bool) \<Rightarrow> fresh \<Rightarrow> YoutubeDLInfo \<Rightarrow> (ThumbnailType \<Rightarrow> fetchOutcome) \<Rightarrow> importReq
     \<Rightarrow> (world, videoImport) prog" where
  "ytdlInsert fails fr info fetch req =
     (let body = rq_body req;
          targetUrl = b_targetUrl body;
          video = buildVideo fr (rq_channelId req) body info
      in bindP (processThumbnail fails req video) (\<lambda>thumbnailModel0.
         bindP (thumbnailFallback thumbnailModel0 (i_thumbnailUrl info)
                  (\<lambda>url. processThumbnailFromUrl fetch url video)) (\<lambda>thumbnailModel.
         bindP (processPreview fails req video) (\<lambda>previewModel0.
         bindP (thumbnailFallback previewModel0 (i_thumbnailUrl info)
                  (\<lambda>url. processPreviewFromUrl fetch url video)) (\<lambda>previewModel.
         insertIntoDB fails fr video thumbnailModel previewModel
           (or_js obj_truthy (b_tags body) (i_tags info))
           \<lparr> ia_targetUrl = targetUrl, ia_magnetUri = Undefined,
             ia_torrentName = Undefined, ia_state = PENDING,
             ia_userId = rq_userId req \<rparr>)))))"

definition ytdlPayload :: "YoutubeDLInfo \<Rightarrow> videoImport \<Rightarrow> jobPayload" where
  "ytdlPayload info videoImport =
     \<lparr> jp_type = Job_youtube_dl,
       jp_videoImportId = vi_id videoImport,
       jp_magnetUri = Undefined,
       jp_fileExt =
         (case or_js str_truthy (i_ext info) (Val ''mp4'') of
            Val e \<Rightarrow> Val (''.'' @ e) | _ \<Rightarrow> Undefined) \<rparr>"

definition ytdlFinish ::
  "(call \<Rightarrow> bool) \<Rightarrow> YoutubeDLInfo \<Rightarrow> string js \<Rightarrow> subtitle list \<Rightarrow> videoImport
     \<Rightarrow> (world, unit) prog" where
  "ytdlFinish fails info targetUrl subtitles videoImport =
     seqP [importSubtitles fails targetUrl (vi_videoId videoImport) subtitles,
           callC fails (CreateJob (ytdlPayload info videoImport)),
           callC fails (AuditLog ''video-imports''),
           respond OK_200 (ImportJSON videoImport)]"

text \<open>Three subtitles, and an oracle under which the move of the French one fails.\<close>

definition subEn :: subtitle where
  "subEn = \<lparr>sub_language = ''en'', sub_path = ''tmp/en.vtt''\<rparr>"

definition subFr :: subtitle where
  "subFr = \<lparr>sub_language = ''fr'', sub_path = ''tmp/fr.vtt''\<rparr>"

definition subDe :: subtitle where
  "subDe = \<lparr>sub_language = ''de'', sub_path = ''tmp/de.vtt''\<rparr>"

definition moveFrFails :: "call \<Rightarrow> bool" where
  "moveFrFails c = (c = MoveAndProcessCaptionFile subFr)"

subsection \<open>The parts of an update\<close>

text \<open>
  What the assignments of \<open>updateFields\<close> and the privacy block make of a descriptor,
  and the calls that the privacy block issues (lemmas \<open>updateFields_run\<close> and
  \<open>updatePrivacy_run\<close> below).
\<close>

definition applyFields :: "videoUpdate \<Rightarrow> video \<Rightarrow> video" where
  "applyFields p v =
     v\<lparr> v_name := (if p_name p \<noteq> Undefined then p_name p else v_name v),
        v_category := (if p_category p \<noteq> Undefined then p_category p else v_category v),
        v_licence := (if p_licence p \<noteq> Undefined then p_licence p else v_licence v),
        v_language := (if p_language p \<noteq> Undefined then p_language p else v_language v),
        v_nsfw := (if p_nsfw p \<noteq> Undefined then p_nsfw p else v_nsfw v),
        v_waitTranscoding :=
          (if p_waitTranscoding p \<noteq> Undefined then p_waitTranscoding p else v_waitTranscoding v),
        v_support := (if p_support p \<noteq> Undefined then p_support p else v_support v),
        v_description :=
          (if p_description p \<noteq> Undefined then p_description p else v_description v),
        v_commentsEnabled :=
          (if p_commentsEnabled p \<noteq> Undefined then p_commentsEnabled p else v_commentsEnabled v),
        v_downloadEnabled :=
          (if p_downloadEnabled p \<noteq> Undefined then p_downloadEnabled p else v_downloadEnabled v),
        v_originallyPublishedAt :=
          (case p_originallyPublishedAt p of
             Val d \<Rightarrow> Val (NewDate d) | _ \<Rightarrow> v_originallyPublishedAt v) \<rparr>"

definition privApply :: "videoMethods \<Rightarrow> videoUpdate \<Rightarrow> video \<Rightarrow> video" where
  "privApply m p v =
     (case p_privacy p of Val n \<Rightarrow> setPrivacy (parseInt_toString m n) v | _ \<Rightarrow> v)"

definition privCalls :: "videoMethods \<Rightarrow> bool \<Rightarrow> videoUpdate \<Rightarrow> video \<Rightarrow> call list" where
  "privCalls m had p v1 =
     (case p_privacy p of
        Val n \<Rightarrow> if had \<and> \<not> hasPrivacyForFederation m v1 then [SendDelete v1] else []
      | _ \<Rightarrow> [])"

text \<open>
  The calls that the transaction callback issues after \<open>save\<close> are neither transaction
  events nor \<open>save\<close> nor \<open>sendDelete\<close>. A step is \<open>quiet\<close> when it only appends
  such calls to the log and changes nothing of the descriptor but, possibly, its channel.
\<close>

definition noisy :: "call \<Rightarrow> bool" where
  "noisy c = (c = TxBegin \<or> c = TxCommit \<or> c = TxRollback
              \<or> (\<exists>v. c = VideoSave v) \<or> (\<exists>v. c = SendDelete v))"

definition quiet :: "int option \<Rightarrow> (uworld, unit) prog \<Rightarrow> bool" where
  "quiet ch m =
     (\<forall>w. \<exists>r xs k. m w = (r, w\<lparr>log := log w @ xs, inst := (inst w)\<lparr>v_channelId := k\<rparr>\<rparr>)
          \<and> (\<forall>c \<in> set xs. \<not> noisy c)
          \<and> (k = v_channelId (inst w) \<or> ch = Some k))"

text \<open>A step is \<open>total\<close> when it ends without error from every state.\<close>

definition total :: "(uworld, unit) prog \<Rightarrow> bool" where
  "total m = (\<forall>w. fst (m w) = Inr ())"

text \<open>The steps of the transaction callback after \<open>save\<close> (lemma \<open>body_unfold\<close>).\<close>

definition bodyTail ::
  "(call \<Rightarrow> bool) \<Rightarrow> bool \<Rightarrow> thumbnail js \<Rightarrow> thumbnail js \<Rightarrow> int option \<Rightarrow> videoUpdate
     \<Rightarrow> int \<Rightarrow> video \<Rightarrow> bool \<Rightarrow> (uworld, unit) prog list" where
  "bodyTail fails had th pr ch p old v isNew =
     [(case th of Val t \<Rightarrow> callC fails (AddAndSaveThumbnail t) | _ \<Rightarrow> ret ()),
      (case pr of Val t \<Rightarrow> callC fails (AddAndSaveThumbnail t) | _ \<Rightarrow> ret ()),
      whenP (p_tags p \<noteq> Undefined) (callC fails (SetVideoTags (p_tags p))),
      (case ch of
         Some c \<Rightarrow>
           whenP (v_channelId v \<noteq> c)
             (seqP [callC fails (SetVideoChannel c),
                    modifyInst (\<lambda>v. v\<lparr>v_channelId := c\<rparr>),
                    whenP had (callC fails (ChangeVideoChannelShare old))])
       | None \<Rightarrow> ret ()),
      updateSchedule fails p v,
      callC fails (AutoBlacklistVideoIfNeeded False),
      callC fails (FederateVideoIfNeeded isNew),
      callC fails (AuditLog ''videos''),
      emit (LoggerInfo ''Video updated.'')]"

text \<open>
  Oracles under which \<open>save\<close>, \<open>sendDelete\<close> or the thumbnails fail, and the state
  before an update.
\<close>

definition saveFails :: "call \<Rightarrow> bool" where
  "saveFails c = (case c of VideoSave v \<Rightarrow> True | _ \<Rightarrow> False)"

definition retractFails :: "call \<Rightarrow> bool" where
  "retractFails c = (case c of SendDelete v \<Rightarrow> True | _ \<Rightarrow> False)"

definition thumbnailsFail :: "call \<Rightarrow> bool" where
  "thumbnailsFail c = (c = BuildVideoThumbnailsFromReq)"

definition sampleWorld :: uworld where
  "sampleWorld = \<lparr>log = [], resp = None, inst = sampleVideo\<rparr>"

section \<open>Basic facts about the control-flow combinators\<close>

lemmas prog_defs =
  ret_def throwE_def bindP_def thenP_def whenP_def tryCatch_def emit_def callC_def
  startC_def await_def transaction_def respond_def asyncFn_def

section \<open>viewVideo: views of live videos\<close>

text \<open>
  Claim C2, as stated, fails: a view of a live video that is not owned by this server is
  federated directly. With no earlier view recorded and no failing call, \<open>viewVideo\<close>
  on such a video calls \<open>sendView\<close>.
\<close>

theorem viewVideo_live_remote_counterexample:
  "v_isLive liveRemote
   \<and> viewVideo neverFails False (Some liveRemote) ''10.0.0.1'' liveRemote world0 =
       (Inr (),
        \<lparr>log = [DoesVideoIPViewExist ''10.0.0.1'' ''u7'', VideoLoad (Val 7),
                SetIPVideoView ''10.0.0.1'' ''u7'' True, GetServerActor, SendView (Val 7),
                RunAction ''action:api.video.viewed''],
         resp = Some \<lparr>r_status = NO_CONTENT_204, r_body = NoBody\<rparr>\<rparr>)"
  by (simp add: viewVideo_def prog_defs liveRemote_def sampleVideo_def neverFails_def world0_def
      isOwned_def)

text \<open>
  Claim C2, amended. For a view of a live video whose dedup key is not yet recorded, the
  VOD counter is never incremented. When the live video is owned by this server the view
  is not federated directly either (neither \<open>getServerActor\<close> nor \<open>sendView\<close> is
  called), and a run that ends without error has added the view to the live manager. When
  the live video is not owned by this server the live manager is not called, and a run
  that ends without error has federated the view directly: \<open>getServerActor\<close> and
  \<open>sendView\<close> of this video are in the log. A run in which no call fails ends
  without error.
\<close>

theorem viewVideo_live:
  assumes "v_isLive video"
    and "viewVideo fails False (Some video) ip immutableVideoAttrs world0 = (r, w)"
  shows "(\<forall>i. AddVideoView i \<notin> set (log w))
       \<and> (isOwned video \<longrightarrow> (\<forall>i. SendView i \<notin> set (log w)) \<and> GetServerActor \<notin> set (log w))
       \<and> (isOwned video \<and> r = Inr () \<longrightarrow> LiveAddViewTo (v_id video) \<in> set (log w))
       \<and> (\<not> isOwned video \<longrightarrow> (\<forall>i. LiveAddViewTo i \<notin> set (log w)))
       \<and> (\<not> isOwned video \<and> r = Inr ()
            \<longrightarrow> GetServerActor \<in> set (log w) \<and> SendView (v_id video) \<in> set (log w))
       \<and> ((\<forall>c. \<not> fails c) \<longrightarrow> r = Inr ())"
  using assms
  by (auto simp: viewVideo_def prog_defs world0_def split: if_splits promise.splits)

text \<open>
  Witness for C2: a live video owned by this server and a live video of another server,
  each viewed for the first time.
\<close>

theorem viewVideo_live_witness:
  "v_isLive liveOwned \<and> isOwned liveOwned
   \<and> viewVideo neverFails False (Some liveOwned) ''10.0.0.1'' liveOwned world0 =
       (Inr (),
        \<lparr>log = [DoesVideoIPViewExist ''10.0.0.1'' ''u7'', VideoLoad (Val 7),
                SetIPVideoView ''10.0.0.1'' ''u7'' True, LiveAddViewTo (Val 7),
                RunAction ''action:api.video.viewed''],
         resp = Some \<lparr>r_status = NO_CONTENT_204, r_body = NoBody\<rparr>\<rparr>)
   \<and> AddVideoView (Val 7) \<notin> set (log (snd (viewVideo neverFails False (Some liveOwned)
          ''10.0.0.1'' liveOwned world0)))
   \<and> SendView (Val 7) \<notin> set (log (snd (viewVideo neverFails False (Some liveOwned)
          ''10.0.0.1'' liveOwned world0)))
   \<and> v_isLive liveRemote \<and> \<not> isOwned liveRemote
   \<and> fst (viewVideo neverFails False (Some liveRemote) ''10.0.0.1'' liveRemote world0) = Inr ()
   \<and> AddVideoView (Val 7) \<notin> set (log (snd (viewVideo neverFails False (Some liveRemote)
          ''10.0.0.1'' liveRemote world0)))
   \<and> SendView (Val 7) \<in> set (log (snd (viewVideo neverFails False (Some liveRemote)
          ''10.0.0.1'' liveRemote world0)))"
proof -
  let ?remote = "viewVideo neverFails False (Some liveRemote) ''10.0.0.1'' liveRemote world0"
  have live: "v_isLive liveOwned" and own: "isOwned liveOwned"
    by (simp_all add: liveOwned_def sampleVideo_def isOwned_def)
  have run: "viewVideo neverFails False (Some liveOwned) ''10.0.0.1'' liveOwned world0 =
       (Inr (),
        \<lparr>log = [DoesVideoIPViewExist ''10.0.0.1'' ''u7'', VideoLoad (Val 7),
                SetIPVideoView ''10.0.0.1'' ''u7'' True, LiveAddViewTo (Val 7),
                RunAction ''action:api.video.viewed''],
         resp = Some \<lparr>r_status = NO_CONTENT_204, r_body = NoBody\<rparr>\<rparr>)"
    by (simp add: viewVideo_def prog_defs liveOwned_def sampleVideo_def neverFails_def
        world0_def isOwned_def)
  have rlive: "v_isLive liveRemote" and rown: "\<not> isOwned liveRemote"
    and rid: "v_id liveRemote = Val 7"
    by (simp_all add: liveRemote_def sampleVideo_def isOwned_def)
  have never: "\<forall>c. \<not> neverFails c"
    by (simp add: neverFails_def)
  have rrun: "?remote = (fst ?remote, snd ?remote)"
    by simp
  from viewVideo_live[OF live run] viewVideo_live[OF rlive rrun] live own run rlive rown rid never
  show ?thesis
    by simp
qed

section \<open>buildVideo: precedence of the request fields\<close>

lemmas js_defs = truthy_def str_truthy_def num_truthy_def bool_truthy_def obj_truthy_def or_js_def

text \<open>
  Claim C9, as stated, fails: an explicit \<open>nsfw: false\<close>, \<open>category: 0\<close> or empty name
  in the request is overridden by the value of the extractor.
\<close>

theorem buildVideo_explicit_false_counterexample:
  "b_nsfw (noBody\<lparr>b_nsfw := Val False, b_category := Val 0, b_name := Val ''''\<rparr>) = Val False
   \<and> v_nsfw (buildVideo sampleFresh 3
               (noBody\<lparr>b_nsfw := Val False, b_category := Val 0, b_name := Val ''''\<rparr>) fullInfo)
       = Val True
   \<and> v_category (buildVideo sampleFresh 3
               (noBody\<lparr>b_nsfw := Val False, b_category := Val 0, b_name := Val ''''\<rparr>) fullInfo)
       = Val 9
   \<and> v_name (buildVideo sampleFresh 3
               (noBody\<lparr>b_nsfw := Val False, b_category := Val 0, b_name := Val ''''\<rparr>) fullInfo)
       = Val ''remote name''"
  by (simp add: buildVideo_def js_defs noBody_def fullInfo_def)

text \<open>
  Claim C9, amended. In \<open>buildVideo\<close> an explicit request value that is truthy wins
  over the extractor's value, for every field; an explicit value that is falsy
  (\<open>false\<close>, \<open>0\<close>, the empty string, \<open>null\<close>) counts as absent: the field is then
  the extractor's value, or, for the name and the nsfw flag, the hard default when the
  extractor's value is falsy too. The fields without an extractor value fall back to
  their hard default, and the comments and download flags are true unless the request
  says \<open>false\<close>.
\<close>

theorem buildVideo_precedence:
  "(truthy str_truthy (b_name body) \<longrightarrow> v_name (buildVideo fr channelId body importData) = b_name body)
   \<and> (truthy num_truthy (b_category body)
        \<longrightarrow> v_category (buildVideo fr channelId body importData) = b_category body)
   \<and> (truthy num_truthy (b_licence body)
        \<longrightarrow> v_licence (buildVideo fr channelId body importData) = b_licence body)
   \<and> (truthy str_truthy (b_language body)
        \<longrightarrow> v_language (buildVideo fr channelId body importData) = b_language body)
   \<and> (truthy bool_truthy (b_nsfw body)
        \<longrightarrow> v_nsfw (buildVideo fr channelId body importData) = b_nsfw body)
   \<and> (truthy str_truthy (b_description body)
        \<longrightarrow> v_description (buildVideo fr channelId body importData) = b_description body)
   \<and> (\<forall>d. b_originallyPublishedAt body = Val d \<and> d \<noteq> []
        \<longrightarrow> v_originallyPublishedAt (buildVideo fr channelId body importData) = Val (NewDate d))
   \<and> (truthy bool_truthy (b_waitTranscoding body)
        \<longrightarrow> v_waitTranscoding (buildVideo fr channelId body importData) = b_waitTranscoding body)
   \<and> (truthy str_truthy (b_support body)
        \<longrightarrow> v_support (buildVideo fr channelId body importData) = b_support body)
   \<and> (truthy num_truthy (b_privacy body)
        \<longrightarrow> v_privacy (buildVideo fr channelId body importData) = b_privacy body)
   \<and> v_commentsEnabled (buildVideo fr channelId body importData)
       = Val (b_commentsEnabled body \<noteq> Val False)
   \<and> v_downloadEnabled (buildVideo fr channelId body importData)
       = Val (b_downloadEnabled body \<noteq> Val False)
   \<and> (\<not> truthy str_truthy (b_name body) \<and> truthy str_truthy (i_name importData)
        \<longrightarrow> v_name (buildVideo fr channelId body importData) = i_name importData)
   \<and> (\<not> truthy str_truthy (b_name body) \<and> \<not> truthy str_truthy (i_name importData)
        \<longrightarrow> v_name (buildVideo fr channelId body importData) = Val ''Unknown name'')
   \<and> (\<not> truthy num_truthy (b_category body)
        \<longrightarrow> v_category (buildVideo fr channelId body importData) = i_category importData)
   \<and> (\<not> truthy num_truthy (b_licence body)
        \<longrightarrow> v_licence (buildVideo fr channelId body importData) = i_licence importData)
   \<and> (\<not> truthy str_truthy (b_language body)
        \<longrightarrow> v_language (buildVideo fr channelId body importData) = i_language importData)
   \<and> (\<not> truthy bool_truthy (b_nsfw body) \<and> truthy bool_truthy (i_nsfw importData)
        \<longrightarrow> v_nsfw (buildVideo fr channelId body importData) = i_nsfw importData)
   \<and> (\<not> truthy bool_truthy (b_nsfw body) \<and> \<not> truthy bool_truthy (i_nsfw importData)
        \<longrightarrow> v_nsfw (buildVideo fr channelId body importData) = Val False)
   \<and> (\<not> truthy str_truthy (b_description body)
        \<longrightarrow> v_description (buildVideo fr channelId body importData) = i_description importData)
   \<and> (\<not> truthy str_truthy (b_originallyPublishedAt body)
        \<longrightarrow> v_originallyPublishedAt (buildVideo fr channelId body importData)
            = i_originallyPublishedAt importData)
   \<and> (\<not> truthy bool_truthy (b_waitTranscoding body)
        \<longrightarrow> v_waitTranscoding (buildVideo fr channelId body importData) = Val False)
   \<and> (\<not> truthy str_truthy (b_support body)
        \<longrightarrow> v_support (buildVideo fr channelId body importData) = Null)
   \<and> (\<not> truthy num_truthy (b_privacy body)
        \<longrightarrow> v_privacy (buildVideo fr channelId body importData) = Val VideoPrivacy_PRIVATE)"
  by (simp add: buildVideo_def js_defs)

text \<open>
  Witness for C9: a request with every field explicit and truthy, a request whose explicit
  values are all falsy, against an extractor result with every field, and against one
  with none.
\<close>

theorem buildVideo_precedence_witness:
  "truthy str_truthy (b_name explicitBody) \<and> truthy bool_truthy (b_nsfw explicitBody)
   \<and> truthy num_truthy (b_category explicitBody)
   \<and> v_name (buildVideo sampleFresh 3 explicitBody fullInfo) = Val ''my name''
   \<and> v_category (buildVideo sampleFresh 3 explicitBody fullInfo) = Val 5
   \<and> v_licence (buildVideo sampleFresh 3 explicitBody fullInfo) = Val 2
   \<and> v_language (buildVideo sampleFresh 3 explicitBody fullInfo) = Val ''fr''
   \<and> v_nsfw (buildVideo sampleFresh 3 explicitBody fullInfo) = Val True
   \<and> v_description (buildVideo sampleFresh 3 explicitBody fullInfo) = Val ''mine''
   \<and> v_originallyPublishedAt (buildVideo sampleFresh 3 explicitBody fullInfo)
       = Val (NewDate ''2021-05-05'')
   \<and> v_waitTranscoding (buildVideo sampleFresh 3 explicitBody fullInfo) = Val True
   \<and> v_support (buildVideo sampleFresh 3 explicitBody fullInfo) = Val ''donate''
   \<and> v_privacy (buildVideo sampleFresh 3 explicitBody fullInfo) = Val 1
   \<and> \<not> truthy str_truthy (b_name falsyBody) \<and> \<not> truthy bool_truthy (b_nsfw falsyBody)
   \<and> \<not> truthy num_truthy (b_category falsyBody)
   \<and> v_name (buildVideo sampleFresh 3 falsyBody fullInfo) = Val ''remote name''
   \<and> v_category (buildVideo sampleFresh 3 falsyBody fullInfo) = Val 9
   \<and> v_licence (buildVideo sampleFresh 3 falsyBody fullInfo) = Val 4
   \<and> v_language (buildVideo sampleFresh 3 falsyBody fullInfo) = Val ''en''
   \<and> v_nsfw (buildVideo sampleFresh 3 falsyBody fullInfo) = Val True
   \<and> v_description (buildVideo sampleFresh 3 falsyBody fullInfo) = Val ''remote text''
   \<and> v_originallyPublishedAt (buildVideo sampleFresh 3 falsyBody fullInfo)
       = Val (NewDate ''2019-01-01'')
   \<and> v_waitTranscoding (buildVideo sampleFresh 3 falsyBody fullInfo) = Val False
   \<and> v_support (buildVideo sampleFresh 3 falsyBody fullInfo) = Null
   \<and> v_privacy (buildVideo sampleFresh 3 falsyBody fullInfo) = Val VideoPrivacy_PRIVATE
   \<and> v_name (buildVideo sampleFresh 3 falsyBody (onlyName Undefined)) = Val ''Unknown name''
   \<and> v_nsfw (buildVideo sampleFresh 3 falsyBody (onlyName Undefined)) = Val False"
proof -
  have e: "truthy str_truthy (b_name explicitBody)" "truthy num_truthy (b_category explicitBody)"
    "truthy num_truthy (b_licence explicitBody)" "truthy str_truthy (b_language explicitBody)"
    "truthy bool_truthy (b_nsfw explicitBody)" "truthy str_truthy (b_description explicitBody)"
    "b_originallyPublishedAt explicitBody = Val ''2021-05-05''"
    "truthy bool_truthy (b_waitTranscoding explicitBody)"
    "truthy str_truthy (b_support explicitBody)" "truthy num_truthy (b_privacy explicitBody)"
    "b_name explicitBody = Val ''my name''" "b_category explicitBody = Val 5"
    "b_licence explicitBody = Val 2" "b_language explicitBody = Val ''fr''"
    "b_nsfw explicitBody = Val True" "b_description explicitBody = Val ''mine''"
    "b_waitTranscoding explicitBody = Val True" "b_support explicitBody = Val ''donate''"
    "b_privacy explicitBody = Val 1"
    by (simp_all add: explicitBody_def noBody_def js_defs)
  have f: "\<not> truthy str_truthy (b_name falsyBody)" "\<not> truthy num_truthy (b_category falsyBody)"
    "\<not> truthy num_truthy (b_licence falsyBody)" "\<not> truthy str_truthy (b_language falsyBody)"
    "\<not> truthy bool_truthy (b_nsfw falsyBody)" "\<not> truthy str_truthy (b_description falsyBody)"
    "\<not> truthy str_truthy (b_originallyPublishedAt falsyBody)"
    "\<not> truthy bool_truthy (b_waitTranscoding falsyBody)"
    "\<not> truthy str_truthy (b_support falsyBody)" "\<not> truthy num_truthy (b_privacy falsyBody)"
    by (simp_all add: falsyBody_def noBody_def js_defs)
  have i: "truthy str_truthy (i_name fullInfo)" "truthy bool_truthy (i_nsfw fullInfo)"
    "i_name fullInfo = Val ''remote name''" "i_category fullInfo = Val 9"
    "i_licence fullInfo = Val 4" "i_language fullInfo = Val ''en''" "i_nsfw fullInfo = Val True"
    "i_description fullInfo = Val ''remote text''"
    "i_originallyPublishedAt fullInfo = Val (NewDate ''2019-01-01'')"
    by (simp_all add: fullInfo_def js_defs)
  have n: "\<not> truthy str_truthy (i_name (onlyName Undefined))"
    "\<not> truthy bool_truthy (i_nsfw (onlyName Undefined))"
    by (simp_all add: onlyName_def js_defs)
  from e f i n
    buildVideo_precedence[of explicitBody sampleFresh 3 fullInfo]
    buildVideo_precedence[of falsyBody sampleFresh 3 fullInfo]
    buildVideo_precedence[of falsyBody sampleFresh 3 "onlyName Undefined"]
  show ?thesis
    by simp
qed

section \<open>Imports: torrent files, dispatch, thumbnails, subtitles\<close>

text \<open>
  Claim C5. When the uploaded torrent describes a number of files other than one,
  \<open>addTorrentImport\<close> calls nothing but the move, the read and the parse of the torrent
  and the clean-up of the request files: no descriptor is saved, no import record and no
  job is created. A run without error has answered 400 with the code
  \<open>INCORRECT_FILES_IN_TORRENT\<close>, and the run is without error when those four calls
  succeed.
\<close>

theorem addTorrentImport_incorrect_files:
  assumes "length (pt_files parsed) \<noteq> 1"
    and "addTorrentImport fails fr parsed decoded req (Some tf) world0 = (r, w)"
  shows "set (log w) \<subseteq> {MoveFile (uf_path tf) (newTorrentPath fr), ReadFile (newTorrentPath fr),
                          ParseTorrent (newTorrentPath fr), CleanUpReqFiles}
       \<and> (\<forall>v. VideoSave v \<notin> set (log w))
       \<and> (\<forall>i. VideoImportCreate i \<notin> set (log w))
       \<and> (\<forall>j. CreateJob j \<notin> set (log w))
       \<and> (r = Inr () \<longrightarrow>
             resp w = Some \<lparr>r_status = BAD_REQUEST_400,
                             r_body = ErrorBody (Val INCORRECT_FILES_IN_TORRENT)
                                        ''Torrents with only 1 file are supported.''\<rparr>)
       \<and> (\<not> fails (MoveFile (uf_path tf) (newTorrentPath fr))
            \<and> \<not> fails (ReadFile (newTorrentPath fr))
            \<and> \<not> fails (ParseTorrent (newTorrentPath fr))
            \<and> \<not> fails CleanUpReqFiles \<longrightarrow> r = Inr ())"
  using assms
  by (auto simp: addTorrentImport_def prog_defs world0_def Let_def split: if_splits)

text \<open>
  Witness for C5: a torrent that describes two files.
\<close>

theorem addTorrentImport_incorrect_files_witness:
  "length (pt_files twoFiles) \<noteq> 1
   \<and> addTorrentImport neverFails sampleFresh twoFiles (NameStr Undefined) torrentReq
        (Some sampleTorrentFile) world0 =
       (Inr (),
        \<lparr>log = [MoveFile ''tmp/upload.torrent'' ''torrents/secure.torrent'',
                ReadFile ''torrents/secure.torrent'', ParseTorrent ''torrents/secure.torrent'',
                CleanUpReqFiles],
         resp = Some \<lparr>r_status = BAD_REQUEST_400,
                        r_body = ErrorBody (Val INCORRECT_FILES_IN_TORRENT)
                                   ''Torrents with only 1 file are supported.''\<rparr>\<rparr>)
   \<and> CreateJob \<lparr>jp_type = Job_torrent_file, jp_videoImportId = 4, jp_magnetUri = Undefined,
                 jp_fileExt = Undefined\<rparr>
       \<notin> set (log (snd (addTorrentImport neverFails sampleFresh twoFiles (NameStr Undefined)
                          torrentReq (Some sampleTorrentFile) world0)))"
proof -
  have len: "length (pt_files twoFiles) \<noteq> 1"
    by (simp add: twoFiles_def)
  have run: "addTorrentImport neverFails sampleFresh twoFiles (NameStr Undefined) torrentReq
        (Some sampleTorrentFile) world0 =
       (Inr (),
        \<lparr>log = [MoveFile ''tmp/upload.torrent'' ''torrents/secure.torrent'',
                ReadFile ''torrents/secure.torrent'', ParseTorrent ''torrents/secure.torrent'',
                CleanUpReqFiles],
         resp = Some \<lparr>r_status = BAD_REQUEST_400,
                        r_body = ErrorBody (Val INCORRECT_FILES_IN_TORRENT)
                                   ''Torrents with only 1 file are supported.''\<rparr>\<rparr>)"
    by (simp add: addTorrentImport_def prog_defs world0_def Let_def twoFiles_def
        sampleTorrentFile_def sampleFresh_def neverFails_def)
  from addTorrentImport_incorrect_files[OF len run] len run show ?thesis
    by simp
qed

lemmas import_defs =
  addVideoImport_def addYoutubeDLImport_def addTorrentImport_def addTorrentImport_insert_def
  importSubtitles_def importSubtitle_def thumbnailFallback_def insertIntoDB_def
  processThumbnail_def processPreview_def processThumbnailFromUrl_def processPreviewFromUrl_def
  createVideoMiniatureFromUrl_def filesField_def firstTorrentFile_def declaredName_def
  truthy_def str_truthy_def num_truthy_def bool_truthy_def obj_truthy_def or_js_def Let_def

text \<open>
  Claim C4, as stated, fails: a request that names a remote URL and a magnet URI is not
  rejected. \<open>addVideoImport\<close> imports it from the URL: the descriptor and the import
  record are inserted, the job is created and the answer is 200.
\<close>

theorem addVideoImport_two_sources_counterexample:
  "truthy str_truthy (b_targetUrl (rq_body urlAndMagnetReq))
   \<and> truthy str_truthy (b_magnetUri (rq_body urlAndMagnetReq))
   \<and> fst (addVideoImport neverFails sampleFresh sampleInfo [] allSucceed twoFiles
            (NameStr Undefined) urlAndMagnetReq world0) = Inr ()
   \<and> resp (snd (addVideoImport neverFails sampleFresh sampleInfo [] allSucceed twoFiles
            (NameStr Undefined) urlAndMagnetReq world0)) =
       Some \<lparr>r_status = OK_200,
              r_body = ImportJSON \<lparr>vi_id = 4, vi_videoId = Val 9, vi_targetUrl = Val ''http://x/v'',
                                    vi_magnetUri = Undefined, vi_torrentName = Undefined,
                                    vi_state = PENDING, vi_userId = 1\<rparr>\<rparr>
   \<and> CreateJob \<lparr>jp_type = Job_youtube_dl, jp_videoImportId = 4, jp_magnetUri = Undefined,
                 jp_fileExt = Val ''.mp4''\<rparr>
       \<in> set (log (snd (addVideoImport neverFails sampleFresh sampleInfo [] allSucceed twoFiles
            (NameStr Undefined) urlAndMagnetReq world0)))"
  by (simp add: import_defs prog_defs world0_def urlAndMagnetReq_def noBody_def sampleInfo_def
      onlyName_def sampleFresh_def neverFails_def allSucceed_def buildVideo_def)

lemma filesField_without:
  "filesField rf_thumbnailfile (withoutTorrent req) = filesField rf_thumbnailfile req"
  "filesField rf_previewfile (withoutTorrent req) = filesField rf_previewfile req"
  "filesField rf_thumbnailfile (withoutMagnet req) = filesField rf_thumbnailfile req"
  "filesField rf_previewfile (withoutMagnet req) = filesField rf_previewfile req"
  "filesField rf_torrentfile (withoutMagnet req) = filesField rf_torrentfile req"
  by (simp_all add: filesField_def withoutTorrent_def withoutMagnet_def split: option.splits)

lemma buildVideo_without:
  "buildVideo fr (rq_channelId (withoutMagnet req)) (rq_body (withoutMagnet req)) info =
   buildVideo fr (rq_channelId req) (rq_body req) info"
  "buildVideo fr (rq_channelId (withoutTorrent req)) (rq_body (withoutTorrent req)) info =
   buildVideo fr (rq_channelId req) (rq_body req) info"
  by (simp_all add: buildVideo_def withoutMagnet_def withoutTorrent_def
      split del: if_split cong del: if_weak_cong)

lemma processThumbnail_without:
  "processThumbnail fails (withoutMagnet req) = processThumbnail fails req"
  "processThumbnail fails (withoutTorrent req) = processThumbnail fails req"
  "processPreview fails (withoutMagnet req) = processPreview fails req"
  "processPreview fails (withoutTorrent req) = processPreview fails req"
  by (simp_all add: processThumbnail_def processPreview_def filesField_without fun_eq_iff)

lemma addYoutubeDLImport_without:
  "addYoutubeDLImport fails fr info subtitles fetch (withoutTorrent (withoutMagnet req)) =
   addYoutubeDLImport fails fr info subtitles fetch req"
proof -
  have b: "b_targetUrl (rq_body (withoutTorrent (withoutMagnet req))) = b_targetUrl (rq_body req)"
    "b_tags (rq_body (withoutTorrent (withoutMagnet req))) = b_tags (rq_body req)"
    "rq_userId (withoutTorrent (withoutMagnet req)) = rq_userId req"
    by (simp_all add: withoutMagnet_def withoutTorrent_def)
  show ?thesis
    unfolding addYoutubeDLImport_def Let_def
    by (simp only: b buildVideo_without processThumbnail_without)
qed

lemma addTorrentImport_without:
  "addTorrentImport fails fr parsed decoded (withoutMagnet req) (Some tf) =
   addTorrentImport fails fr parsed decoded req (Some tf)"
proof -
  have b: "b_tags (rq_body (withoutMagnet req)) = b_tags (rq_body req)"
    "rq_userId (withoutMagnet req) = rq_userId req"
    by (simp_all add: withoutMagnet_def)
  show ?thesis
    unfolding addTorrentImport_def addTorrentImport_insert_def Let_def
    by (simp only: b buildVideo_without processThumbnail_without option.case)
qed

lemma firstTorrentFile_without:
  "firstTorrentFile (withoutMagnet req) = firstTorrentFile req"
  by (simp add: firstTorrentFile_def filesField_without)

lemma targetUrl_without:
  "b_targetUrl (rq_body (withoutMagnet req)) = b_targetUrl (rq_body req)"
  "b_targetUrl (rq_body (withoutTorrent req)) = b_targetUrl (rq_body req)"
  by (simp_all add: withoutMagnet_def withoutTorrent_def)

text \<open>
  Claim C4, amended. A request that names none of the three sources creates nothing:
  \<open>addVideoImport\<close> returns without calling an import path and without sending a
  response. A request that names more than one is not rejected but dispatched by
  precedence: the remote URL first, then the torrent file, then the magnet URI. The
  sources of lower precedence are ignored: the run is the one of the same request
  without them.
\<close>

theorem addVideoImport_dispatch:
  "(\<not> truthy str_truthy (b_targetUrl (rq_body req))
      \<and> \<not> truthy str_truthy (b_magnetUri (rq_body req)) \<and> firstTorrentFile req = None
      \<longrightarrow> addVideoImport fails fr info subtitles fetch parsed decoded req w = (Inr (), w))
   \<and> (truthy str_truthy (b_targetUrl (rq_body req))
      \<longrightarrow> addVideoImport fails fr info subtitles fetch parsed decoded req w =
            addYoutubeDLImport fails fr info subtitles fetch req w
        \<and> addVideoImport fails fr info subtitles fetch parsed decoded req w =
            addVideoImport fails fr info subtitles fetch parsed decoded
              (withoutTorrent (withoutMagnet req)) w)
   \<and> (\<not> truthy str_truthy (b_targetUrl (rq_body req)) \<and> firstTorrentFile req = Some tf
      \<longrightarrow> addVideoImport fails fr info subtitles fetch parsed decoded req w =
            addTorrentImport fails fr parsed decoded req (Some tf) w
        \<and> addVideoImport fails fr info subtitles fetch parsed decoded req w =
            addVideoImport fails fr info subtitles fetch parsed decoded (withoutMagnet req) w)
   \<and> (\<not> truthy str_truthy (b_targetUrl (rq_body req)) \<and> firstTorrentFile req = None
        \<and> truthy str_truthy (b_magnetUri (rq_body req))
      \<longrightarrow> addVideoImport fails fr info subtitles fetch parsed decoded req w =
          addTorrentImport fails fr parsed decoded req None w)"
proof -
  have url: "truthy str_truthy (b_targetUrl (rq_body req)) \<Longrightarrow>
      addVideoImport fails fr info subtitles fetch parsed decoded
        (withoutTorrent (withoutMagnet req)) w =
      addYoutubeDLImport fails fr info subtitles fetch req w"
    by (simp add: addVideoImport_def targetUrl_without addYoutubeDLImport_without)
  have tor: "\<not> truthy str_truthy (b_targetUrl (rq_body req)) \<Longrightarrow> firstTorrentFile req = Some tf \<Longrightarrow>
      addVideoImport fails fr info subtitles fetch parsed decoded (withoutMagnet req) w =
      addTorrentImport fails fr parsed decoded req (Some tf) w"
    by (simp add: addVideoImport_def firstTorrentFile_without targetUrl_without
        addTorrentImport_without Let_def)
  show ?thesis
    using url tor by (simp add: addVideoImport_def Let_def ret_def)
qed

text \<open>
  Claim C3 on the code: no thumbnail file is uploaded, the extractor gives a thumbnail URL
  and the download fails, that is, the promise of \<open>createVideoMiniatureFromUrl\<close>
  rejects. The rejection passes through \<open>processThumbnailFromUrl\<close> uncaught: nothing
  is logged, the import is aborted with that error, nothing is inserted, no job is
  created and no response is sent.
\<close>

theorem addYoutubeDLImport_thumbnail_download_rejected:
  "filesField rf_thumbnailfile urlReq = None
   \<and> i_thumbnailUrl sampleInfo = Val ''http://x/t.jpg''
   \<and> addYoutubeDLImport neverFails sampleFresh sampleInfo [] downloadRejects urlReq world0 =
       (Inl (Thrown (CreateVideoMiniatureFromUrl MINIATURE ''http://x/t.jpg'')),
        \<lparr>log = [GetYoutubeDLInfo (Val ''http://x/v''),
                CreateVideoMiniatureFromUrl MINIATURE ''http://x/t.jpg''],
         resp = None\<rparr>)"
  by (simp add: import_defs prog_defs world0_def urlReq_def noBody_def sampleInfo_def
      onlyName_def sampleFresh_def neverFails_def downloadRejects_def buildVideo_def)

lemma bindP_assoc: "bindP (bindP m f) g = bindP m (\<lambda>x. bindP (f x) g)"
  by (auto simp: bindP_def fun_eq_iff split: prod.splits sum.splits)

lemma ytdl_split:
  assumes "\<not> fails (GetYoutubeDLInfo (b_targetUrl (rq_body req)))"
  shows "addYoutubeDLImport fails fr info subtitles fetch req w =
         bindP (ytdlInsert fails fr info fetch req)
           (ytdlFinish fails info (b_targetUrl (rq_body req)) subtitles)
           (w\<lparr>log := log w @ [GetYoutubeDLInfo (b_targetUrl (rq_body req))]\<rparr>)"
proof -
  let ?c = "GetYoutubeDLInfo (b_targetUrl (rq_body req))"
  have first: "\<And>h K. bindP (tryCatch (thenP (callC fails ?c) (ret True)) h) K w =
                 K True (w\<lparr>log := log w @ [?c]\<rparr>)"
    using assms by (simp add: prog_defs)
  show ?thesis
    unfolding addYoutubeDLImport_def ytdlInsert_def ytdlFinish_def ytdlPayload_def Let_def
    by (simp only: first bindP_assoc not_True_eq_False if_False)
qed

lemma insertIntoDB_result:
  assumes "insertIntoDB fails fr video t p tags attrs w = (Inr vi, w')"
  shows "vi_videoId vi = Val (newVideoId fr)"
  using assms
  by (auto simp: insertIntoDB_def transaction_def thenP_def bindP_def ret_def emit_def Let_def
      simp del: seqP.simps split: prod.splits sum.splits if_splits)

lemma ytdlInsert_result:
  assumes "ytdlInsert fails fr info fetch req w = (Inr vi, w')"
  shows "vi_videoId vi = Val (newVideoId fr)"
  using assms
  by (auto simp: ytdlInsert_def bindP_def Let_def split: prod.splits sum.splits
      dest: insertIntoDB_result)

lemma importSubtitle_ok:
  assumes "\<not> fails (MoveAndProcessCaptionFile p)"
    and "\<not> fails (InsertOrReplaceLanguage videoId (sub_language p))" and "\<not> fails TxCommit"
  shows "importSubtitle fails videoId p w = (Inr (), w\<lparr>log := log w @ captionCalls videoId p\<rparr>)"
  using assms by (simp add: importSubtitle_def captionCalls_def prog_defs)

lemma importSubtitle_fail:
  assumes "fails (MoveAndProcessCaptionFile s)
           \<or> fails (InsertOrReplaceLanguage videoId (sub_language s))"
  shows "\<exists>e attempt. importSubtitle fails videoId s w = (Inl e, w\<lparr>log := log w @ attempt\<rparr>)
           \<and> set attempt \<subseteq> {MoveAndProcessCaptionFile s, TxBegin,
                               InsertOrReplaceLanguage videoId (sub_language s), TxRollback}"
proof (cases "fails (MoveAndProcessCaptionFile s)")
  case True
  then show ?thesis
    by (intro exI[of _ "Thrown (MoveAndProcessCaptionFile s)"]
        exI[of _ "[MoveAndProcessCaptionFile s]"])
       (simp add: importSubtitle_def prog_defs)
next
  case False
  with assms have "fails (InsertOrReplaceLanguage videoId (sub_language s))" by simp
  with False show ?thesis
    by (intro exI[of _ "Thrown (InsertOrReplaceLanguage videoId (sub_language s))"]
        exI[of _ "[MoveAndProcessCaptionFile s, TxBegin,
                   InsertOrReplaceLanguage videoId (sub_language s), TxRollback]"])
       (simp add: importSubtitle_def prog_defs)
qed

lemma subtitle_loop:
  assumes "\<forall>p \<in> set pre. \<not> fails (MoveAndProcessCaptionFile p)
             \<and> \<not> fails (InsertOrReplaceLanguage videoId (sub_language p))"
    and "\<not> fails TxCommit"
  shows "seqP (map (importSubtitle fails videoId) (pre @ rest)) w =
         seqP (map (importSubtitle fails videoId) rest)
           (w\<lparr>log := log w @ concat (map (captionCalls videoId) pre)\<rparr>)"
  using assms
proof (induction pre arbitrary: w)
  case Nil
  then show ?case by simp
next
  case (Cons p pre)
  then show ?case
    by (simp add: importSubtitle_ok thenP_def bindP_def)
qed

lemma importSubtitles_nil:
  assumes "\<not> fails (GetYoutubeDLSubs targetUrl)"
  shows "importSubtitles fails targetUrl videoId [] w =
         (Inr (), w\<lparr>log := log w @ [GetYoutubeDLSubs targetUrl,
                     LoggerInfo ''Will create subtitles from youtube import.'']\<rparr>)"
  using assms by (simp add: importSubtitles_def prog_defs)

lemma importSubtitles_fail:
  assumes "\<not> fails (GetYoutubeDLSubs targetUrl)" and "\<not> fails TxCommit"
    and "\<forall>p \<in> set pre. \<not> fails (MoveAndProcessCaptionFile p)
             \<and> \<not> fails (InsertOrReplaceLanguage videoId (sub_language p))"
    and "fails (MoveAndProcessCaptionFile s)
           \<or> fails (InsertOrReplaceLanguage videoId (sub_language s))"
  shows "\<exists>attempt. importSubtitles fails targetUrl videoId (pre @ s # post) w =
           (Inr (), w\<lparr>log := log w @ [GetYoutubeDLSubs targetUrl,
                        LoggerInfo ''Will create subtitles from youtube import.'']
                      @ concat (map (captionCalls videoId) pre) @ attempt
                      @ [LoggerWarn ''Cannot get video subtitles.'']\<rparr>)
           \<and> set attempt \<subseteq> {MoveAndProcessCaptionFile s, TxBegin,
                               InsertOrReplaceLanguage videoId (sub_language s), TxRollback}"
proof -
  let ?w1 = "w\<lparr>log := log w @ [GetYoutubeDLSubs targetUrl,
                     LoggerInfo ''Will create subtitles from youtube import.'']\<rparr>"
  let ?w2 = "?w1\<lparr>log := log ?w1 @ concat (map (captionCalls videoId) pre)\<rparr>"
  from importSubtitle_fail[OF assms(4), of ?w2] obtain e attempt where
    f: "importSubtitle fails videoId s ?w2 = (Inl e, ?w2\<lparr>log := log ?w2 @ attempt\<rparr>)"
    and sub: "set attempt \<subseteq> {MoveAndProcessCaptionFile s, TxBegin,
                               InsertOrReplaceLanguage videoId (sub_language s), TxRollback}"
    by blast
  have loop: "seqP (map (importSubtitle fails videoId) (pre @ s # post)) ?w1 =
              (Inl e, ?w2\<lparr>log := log ?w2 @ attempt\<rparr>)"
    using subtitle_loop[OF assms(3,2), of "s # post" ?w1] f
    by (simp add: thenP_def bindP_def)
  have "importSubtitles fails targetUrl videoId (pre @ s # post) w =
          (Inr (), w\<lparr>log := log w @ [GetYoutubeDLSubs targetUrl,
                        LoggerInfo ''Will create subtitles from youtube import.'']
                      @ concat (map (captionCalls videoId) pre) @ attempt
                      @ [LoggerWarn ''Cannot get video subtitles.'']\<rparr>)"
    using assms(1) loop
    by (simp add: importSubtitles_def tryCatch_def thenP_def bindP_def callC_def emit_def
        ret_def del: map_append)
  with sub show ?thesis by blast
qed

text \<open>
  Claim C1, as stated, fails: when the move of the first of two subtitles fails, the second
  subtitle is neither moved nor inserted (the import itself still ends without error).
\<close>

theorem addYoutubeDLImport_subtitles_counterexample:
  "fst (addYoutubeDLImport moveFrFails sampleFresh sampleInfo [subFr, subDe] allSucceed urlReq
          world0) = Inr ()
   \<and> MoveAndProcessCaptionFile subDe
       \<notin> set (log (snd (addYoutubeDLImport moveFrFails sampleFresh sampleInfo [subFr, subDe]
                          allSucceed urlReq world0)))
   \<and> InsertOrReplaceLanguage (Val 9) ''de''
       \<notin> set (log (snd (addYoutubeDLImport moveFrFails sampleFresh sampleInfo [subFr, subDe]
                          allSucceed urlReq world0)))"
  by (simp add: import_defs prog_defs world0_def urlReq_def noBody_def sampleInfo_def
      onlyName_def sampleFresh_def moveFrFails_def allSucceed_def buildVideo_def
      subFr_def subDe_def)

text \<open>
  Claim C1, amended. Take an import from a URL that succeeds when the extractor lists no
  subtitle, and let it list subtitles of which \<open>s\<close> is the first whose move or insertion
  fails. Then the import still succeeds with the same response; compared with the run
  without subtitles, its log has in addition, before the creation of the job, the calls
  that import the subtitles before \<open>s\<close>, the attempt on \<open>s\<close> and one logged warning.
  The subtitles after \<open>s\<close> are not processed.
\<close>

theorem addYoutubeDLImport_subtitle_failure:
  assumes info: "\<not> fails (GetYoutubeDLInfo (b_targetUrl (rq_body req)))"
    and ref: "addYoutubeDLImport fails fr info [] fetch req w0 = (Inr (), wr)"
    and list: "\<not> fails (GetYoutubeDLSubs (b_targetUrl (rq_body req)))"
    and commit: "\<not> fails TxCommit"
    and split: "subtitles = pre @ s # post"
    and pre: "\<forall>p \<in> set pre. \<not> fails (MoveAndProcessCaptionFile p)
                \<and> \<not> fails (InsertOrReplaceLanguage (Val (newVideoId fr)) (sub_language p))"
    and s: "fails (MoveAndProcessCaptionFile s)
              \<or> fails (InsertOrReplaceLanguage (Val (newVideoId fr)) (sub_language s))"
  shows "\<exists>w a attempt payload videoImport.
           addYoutubeDLImport fails fr info subtitles fetch req w0 = (Inr (), w)
         \<and> resp w = resp wr
         \<and> resp w = Some \<lparr>r_status = OK_200, r_body = ImportJSON videoImport\<rparr>
         \<and> log wr = a @ [CreateJob payload, AuditLog ''video-imports'']
         \<and> log w = a @ concat (map (captionCalls (Val (newVideoId fr))) pre) @ attempt
                      @ [LoggerWarn ''Cannot get video subtitles.'']
                      @ [CreateJob payload, AuditLog ''video-imports'']
         \<and> set attempt \<subseteq> {MoveAndProcessCaptionFile s, TxBegin,
                             InsertOrReplaceLanguage (Val (newVideoId fr)) (sub_language s),
                             TxRollback}"
proof -
  let ?url = "b_targetUrl (rq_body req)"
  let ?w1 = "w0\<lparr>log := log w0 @ [GetYoutubeDLInfo ?url]\<rparr>"
  let ?vid = "Val (newVideoId fr) :: int js"
  let ?A = "AuditLog ''video-imports''"
  obtain ri w2 where ins: "ytdlInsert fails fr info fetch req ?w1 = (ri, w2)"
    by (cases "ytdlInsert fails fr info fetch req ?w1")
  from ref ins obtain vi where ri: "ri = Inr vi"
    by (cases ri) (simp_all add: ytdl_split[where fails=fails and req=req, OF info] bindP_def)
  from ytdlInsert_result ins ri have vid: "vi_videoId vi = ?vid" by blast
  let ?J = "CreateJob (ytdlPayload info vi)"
  let ?w3 = "w2\<lparr>log := log w2 @ [GetYoutubeDLSubs ?url,
                     LoggerInfo ''Will create subtitles from youtube import.'']\<rparr>"
  from ref ins ri vid
  have fin: "seqP [callC fails ?J, callC fails ?A, respond OK_200 (ImportJSON vi)] ?w3 = (Inr (), wr)"
    by (simp add: ytdl_split[where fails=fails and req=req, OF info] bindP_def ytdlFinish_def importSubtitles_nil[where fails=fails and targetUrl="b_targetUrl (rq_body req)", OF list]
        thenP_def)
  have nj: "\<not> fails ?J"
  proof
    assume "fails ?J"
    with fin show False by (simp add: prog_defs)
  qed
  have na: "\<not> fails ?A"
  proof
    assume "fails ?A"
    with fin nj show False by (simp add: prog_defs)
  qed
  from fin nj na
  have wr: "wr = ?w3\<lparr>log := log ?w3 @ [?J, ?A],
                     resp := Some \<lparr>r_status = OK_200, r_body = ImportJSON vi\<rparr>\<rparr>"
    by (simp add: prog_defs)
  from importSubtitles_fail[where fails=fails and targetUrl="?url" and videoId="?vid" and pre=pre and s=s and post=post and w=w2, OF list commit pre s] obtain attempt where
    subs: "importSubtitles fails ?url ?vid (pre @ s # post) w2 =
             (Inr (), w2\<lparr>log := log w2 @ [GetYoutubeDLSubs ?url,
                        LoggerInfo ''Will create subtitles from youtube import.'']
                      @ concat (map (captionCalls ?vid) pre) @ attempt
                      @ [LoggerWarn ''Cannot get video subtitles.'']\<rparr>)"
    and att: "set attempt \<subseteq> {MoveAndProcessCaptionFile s, TxBegin,
                               InsertOrReplaceLanguage ?vid (sub_language s), TxRollback}"
    by blast
  let ?w = "w2\<lparr>log := log w2 @ [GetYoutubeDLSubs ?url,
                        LoggerInfo ''Will create subtitles from youtube import.'']
                      @ concat (map (captionCalls ?vid) pre) @ attempt
                      @ [LoggerWarn ''Cannot get video subtitles.''] @ [?J, ?A],
                resp := Some \<lparr>r_status = OK_200, r_body = ImportJSON vi\<rparr>\<rparr>"
  have run: "addYoutubeDLImport fails fr info subtitles fetch req w0 = (Inr (), ?w)"
    using ins ri vid subs nj na split
    by (simp add: ytdl_split[where fails=fails and req=req, OF info] bindP_def ytdlFinish_def thenP_def callC_def emit_def
        ret_def respond_def del: map_append)
  show ?thesis
    using run wr att
    by (intro exI[of _ ?w] exI[of _ "log ?w3"] exI[of _ attempt]
        exI[of _ "ytdlPayload info vi"] exI[of _ vi]) simp
qed

text \<open>
  Witness for C1: three subtitles, the move of the second one fails.
\<close>

theorem addYoutubeDLImport_subtitle_failure_witness:
  "fst (addYoutubeDLImport moveFrFails sampleFresh sampleInfo [] allSucceed urlReq world0) = Inr ()
   \<and> moveFrFails (MoveAndProcessCaptionFile subFr)
   \<and> (\<exists>w a attempt payload videoImport.
         addYoutubeDLImport moveFrFails sampleFresh sampleInfo [subEn, subFr, subDe] allSucceed
           urlReq world0 = (Inr (), w)
       \<and> resp w = resp (snd (addYoutubeDLImport moveFrFails sampleFresh sampleInfo []
                               allSucceed urlReq world0))
       \<and> resp w = Some \<lparr>r_status = OK_200, r_body = ImportJSON videoImport\<rparr>
       \<and> log (snd (addYoutubeDLImport moveFrFails sampleFresh sampleInfo [] allSucceed urlReq
                      world0)) = a @ [CreateJob payload, AuditLog ''video-imports'']
       \<and> log w = a @ concat (map (captionCalls (Val (newVideoId sampleFresh))) [subEn]) @ attempt
                    @ [LoggerWarn ''Cannot get video subtitles.'']
                    @ [CreateJob payload, AuditLog ''video-imports'']
       \<and> set attempt \<subseteq> {MoveAndProcessCaptionFile subFr, TxBegin,
                           InsertOrReplaceLanguage (Val (newVideoId sampleFresh))
                             (sub_language subFr),
                           TxRollback})"
proof -
  let ?ref = "addYoutubeDLImport moveFrFails sampleFresh sampleInfo [] allSucceed urlReq world0"
  have f: "fst ?ref = Inr ()"
    by (simp add: import_defs prog_defs world0_def urlReq_def noBody_def sampleInfo_def
        onlyName_def sampleFresh_def moveFrFails_def allSucceed_def buildVideo_def)
  then have ref: "?ref = (Inr (), snd ?ref)"
    by (cases ?ref) simp
  have info: "\<not> moveFrFails (GetYoutubeDLInfo (b_targetUrl (rq_body urlReq)))"
    and list: "\<not> moveFrFails (GetYoutubeDLSubs (b_targetUrl (rq_body urlReq)))"
    and commit: "\<not> moveFrFails TxCommit"
    by (simp_all add: moveFrFails_def)
  have split: "[subEn, subFr, subDe] = [subEn] @ subFr # [subDe]"
    by simp
  have pre: "\<forall>p \<in> set [subEn]. \<not> moveFrFails (MoveAndProcessCaptionFile p)
                \<and> \<not> moveFrFails (InsertOrReplaceLanguage (Val (newVideoId sampleFresh))
                                    (sub_language p))"
    by (simp add: moveFrFails_def subEn_def subFr_def)
  have s: "moveFrFails (MoveAndProcessCaptionFile subFr)
              \<or> moveFrFails (InsertOrReplaceLanguage (Val (newVideoId sampleFresh))
                               (sub_language subFr))"
    by (simp add: moveFrFails_def)
  have sf: "moveFrFails (MoveAndProcessCaptionFile subFr)"
    by (simp add: moveFrFails_def)
  from addYoutubeDLImport_subtitle_failure[OF info ref list commit split pre s] f sf
  show ?thesis
    by simp
qed

text \<open>
  Witness for C4: a request with no source, one with a URL and a magnet URI, one with a
  torrent file and a magnet URI, and one with a magnet URI only.
\<close>

theorem addVideoImport_dispatch_witness:
  "addVideoImport neverFails sampleFresh sampleInfo [] allSucceed twoFiles (NameStr Undefined)
     emptyReq world0 = (Inr (), world0)
   \<and> addVideoImport neverFails sampleFresh sampleInfo [] allSucceed twoFiles (NameStr Undefined)
       urlAndMagnetReq world0 =
     addVideoImport neverFails sampleFresh sampleInfo [] allSucceed twoFiles (NameStr Undefined)
       urlReq world0
   \<and> addVideoImport neverFails sampleFresh sampleInfo [] allSucceed twoFiles (NameStr Undefined)
       urlAndMagnetReq world0 =
     addYoutubeDLImport neverFails sampleFresh sampleInfo [] allSucceed urlAndMagnetReq world0
   \<and> addVideoImport neverFails sampleFresh sampleInfo [] allSucceed twoFiles (NameStr Undefined)
       (torrentReq\<lparr>rq_body := noBody\<lparr>b_magnetUri := Val ''magnet:?xt=urn:btih:c12f''\<rparr>\<rparr>) world0 =
     addTorrentImport neverFails sampleFresh twoFiles (NameStr Undefined)
       (torrentReq\<lparr>rq_body := noBody\<lparr>b_magnetUri := Val ''magnet:?xt=urn:btih:c12f''\<rparr>\<rparr>)
       (Some sampleTorrentFile) world0
   \<and> addVideoImport neverFails sampleFresh sampleInfo [] allSucceed twoFiles (NameStr Undefined)
       (emptyReq\<lparr>rq_body := noBody\<lparr>b_magnetUri := Val ''magnet:?xt=urn:btih:c12f''\<rparr>\<rparr>) world0 =
     addTorrentImport neverFails sampleFresh twoFiles (NameStr Undefined)
       (emptyReq\<lparr>rq_body := noBody\<lparr>b_magnetUri := Val ''magnet:?xt=urn:btih:c12f''\<rparr>\<rparr>)
       None world0"
proof -
  let ?magnet = "noBody\<lparr>b_magnetUri := Val ''magnet:?xt=urn:btih:c12f''\<rparr>"
  have none: "\<not> truthy str_truthy (b_targetUrl (rq_body emptyReq))
      \<and> \<not> truthy str_truthy (b_magnetUri (rq_body emptyReq)) \<and> firstTorrentFile emptyReq = None"
    by (simp add: emptyReq_def noBody_def truthy_def firstTorrentFile_def filesField_def)
  have url: "truthy str_truthy (b_targetUrl (rq_body urlAndMagnetReq))"
    by (simp add: urlAndMagnetReq_def noBody_def truthy_def str_truthy_def)
  have tor: "\<not> truthy str_truthy (b_targetUrl (rq_body (torrentReq\<lparr>rq_body := ?magnet\<rparr>)))
      \<and> firstTorrentFile (torrentReq\<lparr>rq_body := ?magnet\<rparr>) = Some sampleTorrentFile"
    by (simp add: torrentReq_def noBody_def truthy_def firstTorrentFile_def filesField_def)
  have mag: "\<not> truthy str_truthy (b_targetUrl (rq_body (emptyReq\<lparr>rq_body := ?magnet\<rparr>)))
      \<and> firstTorrentFile (emptyReq\<lparr>rq_body := ?magnet\<rparr>) = None
      \<and> truthy str_truthy (b_magnetUri (rq_body (emptyReq\<lparr>rq_body := ?magnet\<rparr>)))"
    by (simp add: emptyReq_def noBody_def truthy_def str_truthy_def firstTorrentFile_def
        filesField_def)
  note d = addVideoImport_dispatch[where fails=neverFails and fr=sampleFresh and info=sampleInfo
      and subtitles="[]" and fetch=allSucceed and parsed=twoFiles and decoded="NameStr Undefined"
      and w=world0 and tf=sampleTorrentFile]
  have 1: "addVideoImport neverFails sampleFresh sampleInfo [] allSucceed twoFiles
             (NameStr Undefined) emptyReq world0 = (Inr (), world0)"
    using none d[where req=emptyReq] by simp
  have 2: "addVideoImport neverFails sampleFresh sampleInfo [] allSucceed twoFiles
             (NameStr Undefined) urlAndMagnetReq world0 =
           addYoutubeDLImport neverFails sampleFresh sampleInfo [] allSucceed urlAndMagnetReq
             world0"
    using url d[where req=urlAndMagnetReq] by simp
  have 3: "addVideoImport neverFails sampleFresh sampleInfo [] allSucceed twoFiles
             (NameStr Undefined) (torrentReq\<lparr>rq_body := ?magnet\<rparr>) world0 =
           addTorrentImport neverFails sampleFresh twoFiles (NameStr Undefined)
             (torrentReq\<lparr>rq_body := ?magnet\<rparr>) (Some sampleTorrentFile) world0"
    using tor d[where req="torrentReq\<lparr>rq_body := ?magnet\<rparr>"] by simp
  have 4: "addVideoImport neverFails sampleFresh sampleInfo [] allSucceed twoFiles
             (NameStr Undefined) (emptyReq\<lparr>rq_body := ?magnet\<rparr>) world0 =
           addTorrentImport neverFails sampleFresh twoFiles (NameStr Undefined)
             (emptyReq\<lparr>rq_body := ?magnet\<rparr>) None world0"
    using mag d[where req="emptyReq\<lparr>rq_body := ?magnet\<rparr>"] by simp
  have same: "withoutTorrent (withoutMagnet urlAndMagnetReq) = urlReq"
    by (simp add: withoutTorrent_def withoutMagnet_def urlAndMagnetReq_def urlReq_def noBody_def)
  have 5: "addVideoImport neverFails sampleFresh sampleInfo [] allSucceed twoFiles
             (NameStr Undefined) urlAndMagnetReq world0 =
           addVideoImport neverFails sampleFresh sampleInfo [] allSucceed twoFiles
             (NameStr Undefined) urlReq world0"
    using d[where req=urlAndMagnetReq, THEN conjunct2, THEN conjunct1, THEN mp, OF url,
        THEN conjunct2, unfolded same] .
  from 1 2 3 4 5 show ?thesis
    by (intro conjI)
qed

section \<open>updateVideo: snapshot, retract before save, absent and null fields\<close>

lemma ret_run: "ret x w = (Inr x, w)"
  by (simp add: ret_def)

lemma thenP_whenP_field:
  "thenP (whenP c (modifyInst (\<lambda>v. v\<lparr>v_name := a_name\<rparr>))) k w =
     k (w\<lparr>inst := (inst w)\<lparr>v_name := (if c then a_name else v_name (inst w))\<rparr>\<rparr>)"
  "thenP (whenP c (modifyInst (\<lambda>v. v\<lparr>v_category := a_category\<rparr>))) k w =
     k (w\<lparr>inst := (inst w)\<lparr>v_category := (if c then a_category else v_category (inst w))\<rparr>\<rparr>)"
  "thenP (whenP c (modifyInst (\<lambda>v. v\<lparr>v_licence := a_licence\<rparr>))) k w =
     k (w\<lparr>inst := (inst w)\<lparr>v_licence := (if c then a_licence else v_licence (inst w))\<rparr>\<rparr>)"
  "thenP (whenP c (modifyInst (\<lambda>v. v\<lparr>v_language := a_language\<rparr>))) k w =
     k (w\<lparr>inst := (inst w)\<lparr>v_language := (if c then a_language else v_language (inst w))\<rparr>\<rparr>)"
  "thenP (whenP c (modifyInst (\<lambda>v. v\<lparr>v_nsfw := a_nsfw\<rparr>))) k w =
     k (w\<lparr>inst := (inst w)\<lparr>v_nsfw := (if c then a_nsfw else v_nsfw (inst w))\<rparr>\<rparr>)"
  "thenP (whenP c (modifyInst (\<lambda>v. v\<lparr>v_waitTranscoding := a_waitTranscoding\<rparr>))) k w =
     k (w\<lparr>inst := (inst w)\<lparr>v_waitTranscoding := (if c then a_waitTranscoding else v_waitTranscoding (inst w))\<rparr>\<rparr>)"
  "thenP (whenP c (modifyInst (\<lambda>v. v\<lparr>v_support := a_support\<rparr>))) k w =
     k (w\<lparr>inst := (inst w)\<lparr>v_support := (if c then a_support else v_support (inst w))\<rparr>\<rparr>)"
  "thenP (whenP c (modifyInst (\<lambda>v. v\<lparr>v_description := a_description\<rparr>))) k w =
     k (w\<lparr>inst := (inst w)\<lparr>v_description := (if c then a_description else v_description (inst w))\<rparr>\<rparr>)"
  "thenP (whenP c (modifyInst (\<lambda>v. v\<lparr>v_commentsEnabled := a_commentsEnabled\<rparr>))) k w =
     k (w\<lparr>inst := (inst w)\<lparr>v_commentsEnabled := (if c then a_commentsEnabled else v_commentsEnabled (inst w))\<rparr>\<rparr>)"
  "thenP (whenP c (modifyInst (\<lambda>v. v\<lparr>v_downloadEnabled := a_downloadEnabled\<rparr>))) k w =
     k (w\<lparr>inst := (inst w)\<lparr>v_downloadEnabled := (if c then a_downloadEnabled else v_downloadEnabled (inst w))\<rparr>\<rparr>)"
  by (simp_all add: whenP_def modifyInst_def ret_def thenP_def bindP_def)

lemma thenP_originallyPublishedAt:
  "thenP (case x of Val d \<Rightarrow> modifyInst (\<lambda>v. v\<lparr>v_originallyPublishedAt := Val (NewDate d)\<rparr>)
            | _ \<Rightarrow> ret ()) k w =
   k (w\<lparr>inst := (inst w)\<lparr>v_originallyPublishedAt :=
       (case x of Val d \<Rightarrow> Val (NewDate d) | _ \<Rightarrow> v_originallyPublishedAt (inst w))\<rparr>\<rparr>)"
  by (cases x) (simp_all add: modifyInst_def ret_def thenP_def bindP_def)

lemma updateFields_run:
  "updateFields p w = (Inr (), w\<lparr>inst := applyFields p (inst w)\<rparr>)"
  unfolding updateFields_def applyFields_def seqP.simps
  by (simp add: thenP_whenP_field thenP_originallyPublishedAt ret_run split del: if_split cong del: if_weak_cong cong: js.case_cong)

lemma applyFields_frame:
  "v_id (applyFields p v) = v_id v"
  "v_uuid (applyFields p v) = v_uuid v"
  "v_url (applyFields p v) = v_url v"
  "v_isLive (applyFields p v) = v_isLive v"
  "v_remote (applyFields p v) = v_remote v"
  "v_state (applyFields p v) = v_state v"
  "v_duration (applyFields p v) = v_duration v"
  "v_privacy (applyFields p v) = v_privacy v"
  "v_channelId (applyFields p v) = v_channelId v"
  by (simp_all add: applyFields_def split del: if_split)

lemma applyFields_fields:
  "v_name (applyFields p v) = (if p_name p \<noteq> Undefined then p_name p else v_name v)"
  "v_category (applyFields p v) = (if p_category p \<noteq> Undefined then p_category p else v_category v)"
  "v_licence (applyFields p v) = (if p_licence p \<noteq> Undefined then p_licence p else v_licence v)"
  "v_language (applyFields p v) = (if p_language p \<noteq> Undefined then p_language p else v_language v)"
  "v_nsfw (applyFields p v) = (if p_nsfw p \<noteq> Undefined then p_nsfw p else v_nsfw v)"
  "v_waitTranscoding (applyFields p v) =
     (if p_waitTranscoding p \<noteq> Undefined then p_waitTranscoding p else v_waitTranscoding v)"
  "v_support (applyFields p v) = (if p_support p \<noteq> Undefined then p_support p else v_support v)"
  "v_description (applyFields p v) =
     (if p_description p \<noteq> Undefined then p_description p else v_description v)"
  "v_commentsEnabled (applyFields p v) =
     (if p_commentsEnabled p \<noteq> Undefined then p_commentsEnabled p else v_commentsEnabled v)"
  "v_downloadEnabled (applyFields p v) =
     (if p_downloadEnabled p \<noteq> Undefined then p_downloadEnabled p else v_downloadEnabled v)"
  "v_originallyPublishedAt (applyFields p v) =
     (case p_originallyPublishedAt p of
        Val d \<Rightarrow> Val (NewDate d) | _ \<Rightarrow> v_originallyPublishedAt v)"
  by (simp_all add: applyFields_def split del: if_split)

lemma privApply_frame:
  "v_id (privApply m p v) = v_id v"
  "v_uuid (privApply m p v) = v_uuid v"
  "v_url (privApply m p v) = v_url v"
  "v_isLive (privApply m p v) = v_isLive v"
  "v_remote (privApply m p v) = v_remote v"
  "v_state (privApply m p v) = v_state v"
  "v_duration (privApply m p v) = v_duration v"
  "v_channelId (privApply m p v) = v_channelId v"
  "v_name (privApply m p v) = v_name v"
  "v_category (privApply m p v) = v_category v"
  "v_licence (privApply m p v) = v_licence v"
  "v_language (privApply m p v) = v_language v"
  "v_nsfw (privApply m p v) = v_nsfw v"
  "v_waitTranscoding (privApply m p v) = v_waitTranscoding v"
  "v_support (privApply m p v) = v_support v"
  "v_description (privApply m p v) = v_description v"
  "v_commentsEnabled (privApply m p v) = v_commentsEnabled v"
  "v_downloadEnabled (privApply m p v) = v_downloadEnabled v"
  "v_originallyPublishedAt (privApply m p v) = v_originallyPublishedAt v"
  by (cases "p_privacy p"; simp add: privApply_def setPrivacy_def)+

lemma privApply_privacy:
  "v_privacy (privApply m p v) =
     (case p_privacy p of Val n \<Rightarrow> Val (parseInt_toString m n) | _ \<Rightarrow> v_privacy v)"
  by (cases "p_privacy p"; simp add: privApply_def setPrivacy_def)

lemma updatePrivacy_run:
  assumes "updatePrivacy fails m had p w = (r, w2)"
  shows "w2 = w\<lparr>log := log w @ privCalls m had p (privApply m p (inst w)),
                 inst := privApply m p (inst w)\<rparr>"
proof (cases "p_privacy p")
  case Undefined
  with assms show ?thesis
    by (auto simp: updatePrivacy_def privApply_def privCalls_def ret_def)
next
  case Null
  with assms show ?thesis
    by (auto simp: updatePrivacy_def privApply_def privCalls_def throwE_def)
next
  case (Val n)
  with assms show ?thesis
    by (auto simp: updatePrivacy_def privApply_def privCalls_def getInst_def modifyInst_def
        prog_defs Let_def split: if_splits)
qed

lemma updatePrivacy_result:
  "fst (updatePrivacy fails m had p w) =
     (case p_privacy p of
        Undefined \<Rightarrow> Inr False
      | Null \<Rightarrow> Inl TypeError
      | Val n \<Rightarrow>
          if had \<and> \<not> hasPrivacyForFederation m (privApply m p (inst w))
               \<and> fails (SendDelete (privApply m p (inst w)))
          then Inl (Thrown (SendDelete (privApply m p (inst w))))
          else Inr (isNewVideo m (inst w) n))"
proof (cases "p_privacy p")
  case Undefined
  then show ?thesis
    by (simp add: updatePrivacy_def ret_def)
next
  case Null
  then show ?thesis
    by (simp add: updatePrivacy_def throwE_def)
next
  case (Val n)
  then show ?thesis
    by (simp add: updatePrivacy_def privApply_def getInst_def modifyInst_def prog_defs Let_def)
qed

lemma total_ret: "total (ret ())"
  by (simp add: total_def ret_def)

lemma total_emit: "total (emit c)"
  by (simp add: total_def emit_def)

lemma total_callC: "\<not> fails c \<Longrightarrow> total (callC fails c)"
  by (simp add: total_def prog_defs)

lemma total_modifyInst: "total (modifyInst f)"
  by (simp add: total_def modifyInst_def)

lemma total_thenP:
  assumes "total m" and "total k"
  shows "total (thenP m k)"
  unfolding total_def
proof
  fix w :: uworld
  from assms(1)[unfolded total_def, THEN spec, of w] obtain w1 where "m w = (Inr (), w1)"
    by (cases "m w") simp
  then have "thenP m k w = k w1"
    by (simp add: thenP_def bindP_def)
  with assms(2) show "fst (thenP m k w) = Inr ()"
    by (simp add: total_def)
qed

lemma total_seqP: "list_all total ms \<Longrightarrow> total (seqP ms)"
  by (induction ms) (simp_all add: total_ret total_thenP)

lemma total_whenP: "total m \<Longrightarrow> total (whenP c m)"
  by (simp add: whenP_def total_ret)

lemma total_thumb:
  assumes "\<forall>c. \<not> fails c"
  shows "total (case t of Val x \<Rightarrow> callC fails (AddAndSaveThumbnail x) | _ \<Rightarrow> ret ())"
  using assms by (cases t) (simp_all add: total_ret total_callC)

lemma total_updateSchedule:
  assumes "\<forall>c. \<not> fails c"
  shows "total (updateSchedule fails p v)"
  using assms
  by (cases "p_scheduleUpdate p") (simp_all add: updateSchedule_def total_ret total_callC)

lemma total_channel:
  assumes "\<forall>c. \<not> fails c"
  shows "total (case ch of
              Some c \<Rightarrow>
                whenP (cid \<noteq> c)
                  (seqP [callC fails (SetVideoChannel c),
                         modifyInst (\<lambda>v. v\<lparr>v_channelId := c\<rparr>),
                         whenP had (callC fails (ChangeVideoChannelShare old))])
            | None \<Rightarrow> ret ())"
  using assms
  by (cases ch)
     (simp_all add: total_ret total_whenP total_thenP total_callC total_modifyInst)

lemma quiet_ret: "quiet ch (ret ())"
  unfolding quiet_def ret_def
  by (intro allI exI[of _ "Inr ()"] exI[of _ "[]"]) (rule exI, auto)

lemma quiet_emit: "\<not> noisy c \<Longrightarrow> quiet ch (emit c)"
  unfolding quiet_def emit_def
  by (intro allI exI[of _ "Inr ()"] exI[of _ "[c]"]) (rule exI, auto)

lemma quiet_callC: "\<not> noisy c \<Longrightarrow> quiet ch (callC fails c)"
  unfolding quiet_def
proof
  fix w :: uworld
  assume n: "\<not> noisy c"
  have "callC fails c w =
          (if fails c then Inl (Thrown c) else Inr (),
           w\<lparr>log := log w @ [c], inst := (inst w)\<lparr>v_channelId := v_channelId (inst w)\<rparr>\<rparr>)"
    by (simp add: prog_defs)
  with n show "\<exists>r xs k. callC fails c w = (r, w\<lparr>log := log w @ xs, inst := (inst w)\<lparr>v_channelId := k\<rparr>\<rparr>)
          \<and> (\<forall>c \<in> set xs. \<not> noisy c) \<and> (k = v_channelId (inst w) \<or> ch = Some k)"
    by (intro exI[of _ "if fails c then Inl (Thrown c) else Inr ()"] exI[of _ "[c]"]
        exI[of _ "v_channelId (inst w)"]) simp
qed

lemma quiet_setChannel: "quiet (Some c) (modifyInst (\<lambda>v. v\<lparr>v_channelId := c\<rparr>))"
  unfolding quiet_def modifyInst_def
  by (intro allI exI[of _ "Inr ()"] exI[of _ "[]"] exI[of _ c]) simp

lemma quiet_thenP:
  assumes "quiet ch m" and "quiet ch k"
  shows "quiet ch (thenP m k)"
  unfolding quiet_def
proof
  fix w :: uworld
  from assms(1) obtain r xs a where
    m: "m w = (r, w\<lparr>log := log w @ xs, inst := (inst w)\<lparr>v_channelId := a\<rparr>\<rparr>)"
    and xs: "\<forall>c \<in> set xs. \<not> noisy c" and a: "a = v_channelId (inst w) \<or> ch = Some a"
    unfolding quiet_def by blast
  let ?w1 = "w\<lparr>log := log w @ xs, inst := (inst w)\<lparr>v_channelId := a\<rparr>\<rparr>"
  from assms(2) obtain r' ys b where
    k: "k ?w1 = (r', ?w1\<lparr>log := log ?w1 @ ys, inst := (inst ?w1)\<lparr>v_channelId := b\<rparr>\<rparr>)"
    and ys: "\<forall>c \<in> set ys. \<not> noisy c" and b: "b = v_channelId (inst ?w1) \<or> ch = Some b"
    unfolding quiet_def by blast
  show "\<exists>r xs k'. thenP m k w = (r, w\<lparr>log := log w @ xs, inst := (inst w)\<lparr>v_channelId := k'\<rparr>\<rparr>)
          \<and> (\<forall>c \<in> set xs. \<not> noisy c) \<and> (k' = v_channelId (inst w) \<or> ch = Some k')"
  proof (cases r)
    case (Inl e)
    with m xs a show ?thesis
      by (intro exI[of _ "Inl e"] exI[of _ xs] exI[of _ a]) (simp add: thenP_def bindP_def)
  next
    case (Inr u)
    with m k xs ys a b show ?thesis
      by (intro exI[of _ r'] exI[of _ "xs @ ys"] exI[of _ b]) (auto simp: thenP_def bindP_def)
  qed
qed

lemma quiet_seqP: "list_all (quiet ch) ms \<Longrightarrow> quiet ch (seqP ms)"
  by (induction ms) (simp_all add: quiet_ret quiet_thenP)

lemma quiet_whenP: "quiet ch m \<Longrightarrow> quiet ch (whenP c m)"
  by (simp add: whenP_def quiet_ret)

lemma quiet_thumb:
  "quiet ch (case t of Val x \<Rightarrow> callC fails (AddAndSaveThumbnail x) | _ \<Rightarrow> ret ())"
  by (cases t) (simp_all add: quiet_ret quiet_callC noisy_def)

lemma quiet_updateSchedule: "quiet ch (updateSchedule fails p v)"
  by (cases "p_scheduleUpdate p") (simp_all add: updateSchedule_def quiet_ret quiet_callC noisy_def)

lemma quiet_channel:
  "quiet ch (case ch of
              Some c \<Rightarrow>
                whenP (cid \<noteq> c)
                  (seqP [callC fails (SetVideoChannel c),
                         modifyInst (\<lambda>v. v\<lparr>v_channelId := c\<rparr>),
                         whenP had (callC fails (ChangeVideoChannelShare old))])
            | None \<Rightarrow> ret ())"
  by (cases ch)
     (simp_all add: quiet_ret quiet_whenP quiet_thenP quiet_callC quiet_setChannel noisy_def)

lemma body_unfold:
  "updateVideo_body fails m had th pr ch p w =
     bindP (updatePrivacy fails m had p)
       (\<lambda>isNew w2. seqP (callC fails (VideoSave (inst w2))
                          # bodyTail fails had th pr ch p (v_channelId (inst w)) (inst w2) isNew) w2)
       (w\<lparr>inst := applyFields p (inst w)\<rparr>)"
  unfolding updateVideo_body_def bodyTail_def
  by (simp add: getInst_def bindP_def thenP_def updateFields_run Let_def
      split del: if_split cong del: if_weak_cong)

lemma list_all_quiet_bodyTail: "list_all (quiet ch) (bodyTail fails had th pr ch p old v isNew)"
  unfolding bodyTail_def
  apply (simp only: list.pred_inject)
  apply (intro conjI quiet_thumb quiet_whenP quiet_channel quiet_updateSchedule quiet_callC
      quiet_emit)
      apply (simp_all add: noisy_def)
  done

lemma quiet_bodyTail: "quiet ch (seqP (bodyTail fails had th pr ch p old v isNew))"
  by (rule quiet_seqP) (rule list_all_quiet_bodyTail)

lemma quiet_log:
  assumes "quiet ch m" and "m w = (r, w')"
  shows "\<exists>xs. log w' = log w @ xs"
proof -
  from assms(1) obtain r0 xs k where
    "m w = (r0, w\<lparr>log := log w @ xs, inst := (inst w)\<lparr>v_channelId := k\<rparr>\<rparr>)"
    using assms(1)[unfolded quiet_def, THEN spec, of w] by (elim exE conjE)
  with assms(2) have "w' = w\<lparr>log := log w @ xs, inst := (inst w)\<lparr>v_channelId := k\<rparr>\<rparr>"
    by simp
  then show ?thesis by simp
qed

lemma seqP_success_mem:
  assumes "seqP ms w = (Inr (), w')" and "list_all (quiet ch) ms" and "m \<in> set ms"
  shows "\<exists>wa wb pre post. m wa = (Inr (), wb) \<and> log wa = log w @ pre \<and> log w' = log wb @ post"
  using assms
proof (induction ms arbitrary: w)
  case Nil
  then show ?case by simp
next
  case (Cons m0 ms)
  from Cons.prems(1) obtain w1 where
    m0: "m0 w = (Inr (), w1)" and rest: "seqP ms w1 = (Inr (), w')"
    by (auto simp: thenP_def bindP_def split: prod.splits sum.splits)
  from Cons.prems(2) have q0: "quiet ch m0" and qs: "list_all (quiet ch) ms" by simp_all
  show ?case
  proof (cases "m = m0")
    case True
    from quiet_log[OF quiet_seqP[OF qs] rest] obtain post where "log w' = log w1 @ post" ..
    with m0 True show ?thesis
      by (intro exI[of _ w] exI[of _ w1] exI[of _ "[]"] exI[of _ post]) simp
  next
    case False
    with Cons.prems(3) have "m \<in> set ms" by simp
    from Cons.IH[OF rest qs this] obtain wa wb pre post where
      *: "m wa = (Inr (), wb)" "log wa = log w1 @ pre" "log w' = log wb @ post"
      by blast
    from quiet_log[OF q0 m0] obtain xs where "log w1 = log w @ xs" ..
    with * show ?thesis
      by (intro exI[of _ wa] exI[of _ wb] exI[of _ "xs @ pre"] exI[of _ post]) simp
  qed
qed

lemma body_run:
  assumes run: "updateVideo_body fails m had th pr ch p w = (r, w')"
  shows "\<exists>ys k. log w' = log w @ privCalls m had p (privApply m p (applyFields p (inst w))) @ ys
           \<and> resp w' = resp w
           \<and> (\<forall>c \<in> set ys. c = VideoSave (privApply m p (applyFields p (inst w))) \<or> \<not> noisy c)
           \<and> (r = Inr () \<longrightarrow>
                 (\<exists>zs. ys = VideoSave (privApply m p (applyFields p (inst w))) # zs
                        \<and> (\<forall>c \<in> set zs. \<not> noisy c))
                 \<and> inst w' = (privApply m p (applyFields p (inst w)))\<lparr>v_channelId := k\<rparr>
                 \<and> (k = v_channelId (inst w) \<or> ch = Some k))"
proof -
  let ?v1 = "privApply m p (applyFields p (inst w))"
  let ?w1 = "w\<lparr>inst := applyFields p (inst w)\<rparr>"
  obtain r0 w2 where up: "updatePrivacy fails m had p ?w1 = (r0, w2)"
    by (cases "updatePrivacy fails m had p ?w1")
  from updatePrivacy_run[OF up]
  have w2: "w2 = w\<lparr>log := log w @ privCalls m had p ?v1, inst := ?v1\<rparr>"
    by simp
  have chan: "v_channelId ?v1 = v_channelId (inst w)"
    by (simp add: privApply_frame applyFields_frame)
  show ?thesis
  proof (cases r0)
    case (Inl e)
    with run up have "r = Inl e" "w' = w2"
      by (simp_all add: body_unfold bindP_def)
    with w2 show ?thesis
      by (intro exI[of _ "[]"]) simp
  next
    case (Inr isNew)
    let ?tail = "seqP (bodyTail fails had th pr ch p (v_channelId (inst w)) ?v1 isNew)"
    let ?w3 = "w2\<lparr>log := log w2 @ [VideoSave ?v1]\<rparr>"
    from run up Inr w2
    have step: "thenP (callC fails (VideoSave ?v1)) ?tail w2 = (r, w')"
      by (simp add: body_unfold bindP_def)
    show ?thesis
    proof (cases "fails (VideoSave ?v1)")
      case True
      with step have "r = Inl (Thrown (VideoSave ?v1))" "w' = ?w3"
        by (simp_all add: prog_defs)
      with w2 show ?thesis
        by (intro exI[of _ "[VideoSave ?v1]"]) simp
    next
      case False
      with step have tl: "?tail ?w3 = (r, w')"
        by (simp add: prog_defs)
      from quiet_bodyTail[of ch fails had th pr p "v_channelId (inst w)" ?v1 isNew]
      obtain r' xs k where
        q: "?tail ?w3 = (r', ?w3\<lparr>log := log ?w3 @ xs, inst := (inst ?w3)\<lparr>v_channelId := k\<rparr>\<rparr>)"
        and xs: "\<forall>c \<in> set xs. \<not> noisy c"
        and k: "k = v_channelId (inst ?w3) \<or> ch = Some k"
        unfolding quiet_def by blast
      from tl q have w': "w' = ?w3\<lparr>log := log ?w3 @ xs, inst := (inst ?w3)\<lparr>v_channelId := k\<rparr>\<rparr>"
        by simp
      from w' w2 xs k chan show ?thesis
        by (intro exI[of _ "VideoSave ?v1 # xs"] exI[of _ k]) simp
    qed
  qed
qed

lemma body_schedule:
  assumes run: "updateVideo_body fails m had th pr ch p w = (Inr (), w')"
    and null: "p_scheduleUpdate p = Null"
  shows "\<exists>xs. log w' = log w @ xs \<and> ScheduleDeleteByVideoId (v_id (inst w)) \<in> set xs"
proof -
  let ?v1 = "privApply m p (applyFields p (inst w))"
  let ?w1 = "w\<lparr>inst := applyFields p (inst w)\<rparr>"
  obtain r0 w2 where up: "updatePrivacy fails m had p ?w1 = (r0, w2)"
    by (cases "updatePrivacy fails m had p ?w1")
  from updatePrivacy_run[OF up]
  have w2: "inst w2 = ?v1" and l2: "log w2 = log w @ privCalls m had p ?v1" by simp_all
  have vid: "v_id ?v1 = v_id (inst w)"
    by (simp add: privApply_frame applyFields_frame)
  from run up obtain isNew where r0: "r0 = Inr isNew"
    by (cases r0) (simp_all add: body_unfold bindP_def)
  let ?tail = "bodyTail fails had th pr ch p (v_channelId (inst w)) ?v1 isNew"
  from run up r0 w2
  have "thenP (callC fails (VideoSave ?v1)) (seqP ?tail) w2 = (Inr (), w')"
    by (simp add: body_unfold bindP_def)
  then have tl: "seqP ?tail (w2\<lparr>log := log w2 @ [VideoSave ?v1]\<rparr>) = (Inr (), w')"
    by (cases "fails (VideoSave ?v1)") (simp_all add: prog_defs)
  have mem: "updateSchedule fails p ?v1 \<in> set ?tail"
    by (simp add: bodyTail_def)
  from seqP_success_mem[OF tl list_all_quiet_bodyTail mem]
  obtain wa wb pre post where
    s: "updateSchedule fails p ?v1 wa = (Inr (), wb)"
    and pre: "log wa = log (w2\<lparr>log := log w2 @ [VideoSave ?v1]\<rparr>) @ pre"
    and post: "log w' = log wb @ post"
    by blast
  from s null have "log wb = log wa @ [ScheduleDeleteByVideoId (v_id ?v1)]"
    by (cases "fails (ScheduleDeleteByVideoId (v_id ?v1))")
       (auto simp: updateSchedule_def prog_defs)
  with pre post l2 vid show ?thesis
    by (intro exI[of _ "privCalls m had p ?v1 @ [VideoSave ?v1] @ pre
                         @ [ScheduleDeleteByVideoId (v_id (inst w))] @ post"]) simp
qed

lemma body_shape:
  assumes run: "updateVideo_body fails m had th pr ch p w = (r, w')"
  shows "\<exists>ys. log w' = log w @ privCalls m had p (privApply m p (applyFields p (inst w))) @ ys
           \<and> (((\<exists>e. fst (updatePrivacy fails m had p (w\<lparr>inst := applyFields p (inst w)\<rparr>)) = Inl e
                       \<and> r = Inl e)
                  \<and> ys = [])
                \<or> ((\<exists>b. fst (updatePrivacy fails m had p (w\<lparr>inst := applyFields p (inst w)\<rparr>))
                           = Inr b)
                  \<and> (\<exists>zs. ys = VideoSave (privApply m p (applyFields p (inst w))) # zs
                         \<and> (\<forall>c \<in> set zs. \<not> noisy c)
                         \<and> (fails (VideoSave (privApply m p (applyFields p (inst w))))
                              \<longrightarrow> zs = []
                                \<and> r = Inl (Thrown (VideoSave (privApply m p (applyFields p (inst w)))))))))"
proof -
  let ?v1 = "privApply m p (applyFields p (inst w))"
  let ?w1 = "w\<lparr>inst := applyFields p (inst w)\<rparr>"
  obtain r0 w2 where up: "updatePrivacy fails m had p ?w1 = (r0, w2)"
    by (cases "updatePrivacy fails m had p ?w1")
  from updatePrivacy_run[OF up]
  have w2: "w2 = w\<lparr>log := log w @ privCalls m had p ?v1, inst := ?v1\<rparr>"
    by simp
  show ?thesis
  proof (cases r0)
    case (Inl e)
    with run up have "r = Inl e" "w' = w2"
      by (simp_all add: body_unfold bindP_def)
    with w2 up Inl show ?thesis
      by (intro exI[of _ "[]"]) simp
  next
    case (Inr isNew)
    let ?tail = "seqP (bodyTail fails had th pr ch p (v_channelId (inst w)) ?v1 isNew)"
    let ?w3 = "w2\<lparr>log := log w2 @ [VideoSave ?v1]\<rparr>"
    from run up Inr w2
    have step: "thenP (callC fails (VideoSave ?v1)) ?tail w2 = (r, w')"
      by (simp add: body_unfold bindP_def)
    show ?thesis
    proof (cases "fails (VideoSave ?v1)")
      case True
      with step have "w' = ?w3" "r = Inl (Thrown (VideoSave ?v1))"
        by (simp_all add: prog_defs)
      with w2 up Inr True show ?thesis
        by (intro exI[of _ "[VideoSave ?v1]"]) simp
    next
      case False
      with step have tl: "?tail ?w3 = (r, w')"
        by (simp add: prog_defs)
      from quiet_bodyTail[of ch fails had th pr p "v_channelId (inst w)" ?v1 isNew]
      obtain r' xs k where
        q: "?tail ?w3 = (r', ?w3\<lparr>log := log ?w3 @ xs, inst := (inst ?w3)\<lparr>v_channelId := k\<rparr>\<rparr>)"
        and xs: "\<forall>c \<in> set xs. \<not> noisy c"
        unfolding quiet_def by blast
      from tl q have w': "w' = ?w3\<lparr>log := log ?w3 @ xs, inst := (inst ?w3)\<lparr>v_channelId := k\<rparr>\<rparr>"
        by simp
      from w' w2 xs up Inr False show ?thesis
        by (intro exI[of _ "VideoSave ?v1 # xs"]) simp
    qed
  qed
qed

lemma total_bodyTail:
  assumes "\<forall>c. \<not> fails c"
  shows "list_all total (bodyTail fails had th pr ch p old v isNew)"
  unfolding bodyTail_def
  apply (simp only: list.pred_inject)
  apply (intro conjI total_thumb total_whenP total_channel total_updateSchedule total_callC
      total_emit assms)
     apply (simp_all add: assms)
  done

lemma body_total:
  assumes nofail: "\<forall>c. \<not> fails c" and nonnull: "p_privacy p \<noteq> Null"
  shows "fst (updateVideo_body fails m had th pr ch p w) = Inr ()"
proof -
  let ?v1 = "privApply m p (applyFields p (inst w))"
  let ?w1 = "w\<lparr>inst := applyFields p (inst w)\<rparr>"
  obtain r0 w2 where up: "updatePrivacy fails m had p ?w1 = (r0, w2)"
    by (cases "updatePrivacy fails m had p ?w1")
  from updatePrivacy_run[OF up] have w2: "inst w2 = ?v1" by simp
  have "\<exists>b. fst (updatePrivacy fails m had p ?w1) = Inr b"
    using nofail nonnull by (cases "p_privacy p") (auto simp: updatePrivacy_result)
  with up obtain isNew where r0: "r0 = Inr isNew"
    by auto
  have "total (seqP (callC fails (VideoSave ?v1)
                     # bodyTail fails had th pr ch p (v_channelId (inst w)) ?v1 isNew))"
    using nofail by (intro total_seqP) (simp add: total_callC total_bodyTail)
  then have "fst (seqP (callC fails (VideoSave ?v1)
                     # bodyTail fails had th pr ch p (v_channelId (inst w)) ?v1 isNew) w2) = Inr ()"
    unfolding total_def by blast
  with up r0 w2 show ?thesis
    by (simp add: body_unfold bindP_def)
qed

lemma updateVideo_total:
  assumes nofail: "\<forall>c. \<not> fails c" and nonnull: "p_privacy p \<noteq> Null"
  shows "fst (updateVideo fails m th pr ch p w) = Inr ()"
proof -
  let ?w0 = "w\<lparr>log := log w @ [BuildVideoThumbnailsFromReq, TxBegin]\<rparr>"
  let ?body = "updateVideo_body fails m (hasPrivacyForFederation m (inst w)) th pr ch p ?w0"
  from body_total[OF nofail nonnull, of m "hasPrivacyForFederation m (inst w)" th pr ch ?w0]
  obtain wb where "?body = (Inr (), wb)"
    by (cases ?body) simp
  with nofail show ?thesis
    by (cases "isConfidential m (inst w)")
       (simp_all add: updateVideo_def getInst_def resetSequelizeInstance_def toJSON_def Let_def
          prog_defs)
qed

lemma updateVideo_cases:
  assumes run: "updateVideo fails m th pr ch p w = (r, w')"
  obtains (build) "r = Inl (Thrown BuildVideoThumbnailsFromReq)"
        "w' = w\<lparr>log := log w @ [BuildVideoThumbnailsFromReq]\<rparr>"
        "fails BuildVideoThumbnailsFromReq"
    | (fail) rb wb ys where
        "updateVideo_body fails m (hasPrivacyForFederation m (inst w)) th pr ch p
           (w\<lparr>log := log w @ [BuildVideoThumbnailsFromReq, TxBegin]\<rparr>) = (rb, wb)"
        "\<forall>c \<in> set ys. c = TxRollback \<or> c = TxCommit \<or> \<not> noisy c"
        "\<exists>e. r = Inl e" "w' = wb\<lparr>log := log wb @ ys, inst := inst w\<rparr>"
        "\<forall>e. rb = Inl e \<longrightarrow> ys = [TxRollback] \<and> r = Inl e"
        "\<not> fails BuildVideoThumbnailsFromReq"
    | (ok) wb zs where
        "updateVideo_body fails m (hasPrivacyForFederation m (inst w)) th pr ch p
           (w\<lparr>log := log w @ [BuildVideoThumbnailsFromReq, TxBegin]\<rparr>) = (Inr (), wb)"
        "\<forall>c \<in> set zs. \<not> noisy c" "r = Inr ()"
        "w' = wb\<lparr>log := log wb @ TxCommit # zs,
                  resp := Some \<lparr>r_status = NO_CONTENT_204, r_body = NoBody\<rparr>\<rparr>"
        "\<not> fails BuildVideoThumbnailsFromReq"
proof (cases "fails BuildVideoThumbnailsFromReq")
  case True
  with run show thesis
    by (intro build) (simp_all add: updateVideo_def getInst_def Let_def prog_defs)
next
  case False
  let ?w0 = "w\<lparr>log := log w @ [BuildVideoThumbnailsFromReq, TxBegin]\<rparr>"
  let ?N = NotifyOnNewVideoIfNeeded
  let ?ra = "RunAction ''action:api.video.updated''"
  note defs = updateVideo_def getInst_def resetSequelizeInstance_def toJSON_def Let_def prog_defs
  obtain rb wb where
    b: "updateVideo_body fails m (hasPrivacyForFederation m (inst w)) th pr ch p ?w0 = (rb, wb)"
    by (cases "updateVideo_body fails m (hasPrivacyForFederation m (inst w)) th pr ch p ?w0")
  show thesis
  proof (cases rb)
    case (Inl e)
    with run False b have "r = Inl e" "w' = wb\<lparr>log := log wb @ [TxRollback], inst := inst w\<rparr>"
      by (simp_all add: defs)
    with b Inl False show thesis by (intro fail[of rb wb "[TxRollback]"]) simp_all
  next
    case (Inr u)
    show thesis
    proof (cases "fails TxCommit")
      case True
      with run False b Inr
      have "r = Inl (Thrown TxCommit)" "w' = wb\<lparr>log := log wb @ [TxRollback], inst := inst w\<rparr>"
        by (simp_all add: defs)
      with b Inr False show thesis by (intro fail[of rb wb "[TxRollback]"]) simp_all
    next
      case nc: False
      show thesis
      proof (cases "isConfidential m (inst w)")
        case conf: True
        show thesis
        proof (cases "fails ?N")
          case True
          with run False b Inr nc conf
          have "r = Inl (Thrown ?N)" "w' = wb\<lparr>log := log wb @ [TxCommit, ?N], inst := inst w\<rparr>"
            by (simp_all add: defs)
          with b Inr False show thesis by (intro fail[of rb wb "[TxCommit, ?N]"]) (simp_all add: noisy_def)
        next
          case nn: False
          show thesis
          proof (cases "fails ?ra")
            case True
            with run False b Inr nc conf nn
            have "r = Inl (Thrown ?ra)"
              "w' = wb\<lparr>log := log wb @ [TxCommit, ?N, ?ra], inst := inst w\<rparr>"
              by (simp_all add: defs)
            with b Inr False show thesis
              by (intro fail[of rb wb "[TxCommit, ?N, ?ra]"]) (simp_all add: noisy_def)
          next
            case nr: False
            with run False b Inr nc conf nn
            have "r = Inr ()"
              "w' = wb\<lparr>log := log wb @ TxCommit # [?N, ?ra],
                        resp := Some \<lparr>r_status = NO_CONTENT_204, r_body = NoBody\<rparr>\<rparr>"
              by (simp_all add: defs)
            with b Inr False show thesis by (intro ok[of wb "[?N, ?ra]"]) (simp_all add: noisy_def)
          qed
        qed
      next
        case nconf: False
        show thesis
        proof (cases "fails ?ra")
          case True
          with run False b Inr nc nconf
          have "r = Inl (Thrown ?ra)"
            "w' = wb\<lparr>log := log wb @ [TxCommit, ?ra], inst := inst w\<rparr>"
            by (simp_all add: defs)
          with b Inr False show thesis by (intro fail[of rb wb "[TxCommit, ?ra]"]) (simp_all add: noisy_def)
        next
          case nr: False
          with run False b Inr nc nconf
          have "r = Inr ()"
            "w' = wb\<lparr>log := log wb @ TxCommit # [?ra],
                      resp := Some \<lparr>r_status = NO_CONTENT_204, r_body = NoBody\<rparr>\<rparr>"
            by (simp_all add: defs)
          with b Inr False show thesis by (intro ok[of wb "[?ra]"]) (simp_all add: noisy_def)
        qed
      qed
    qed
  qed
qed



lemmas update_defs =
  updateVideo_def updateVideo_body_def updateFields_def updatePrivacy_def updateSchedule_def
  getInst_def modifyInst_def resetSequelizeInstance_def toJSON_def setPrivacy_def
  hasPrivacyForFederation_def parseInt_toString_def Let_def


text \<open>
  Claim C7. The patch carries a privacy, the video was federation-eligible before the
  update, and the privacy that the code stores, \<open>parseInt(privacy.toString(), 10)\<close>, is
  not eligible; below \<open>10^21\<close> in absolute value the stored privacy is the privacy of
  the patch. Then every run of \<open>updateVideo\<close> has one of these logs, where \<open>v\<close> is
  the descriptor with the stored privacy:
  \<^item> the thumbnails fail: nothing else is called;
  \<^item> the retract \<open>sendDelete v\<close> fails: it was issued right after the begin of the
    transaction, the transaction is rolled back, and \<open>save\<close> is never called;
  \<^item> otherwise the log starts with the thumbnails, the begin of the transaction, the
    retract \<open>sendDelete v\<close> and then \<open>save v\<close>, and no other retract, save or begin
    follows; when \<open>save\<close> fails the rollback comes next and the run ends with that
    error;
  \<^item> on success the commit comes after \<open>save\<close>, nothing is rolled back, and the
    descriptor in memory has the stored privacy.

  A run in which no call fails succeeds.
\<close>

theorem updateVideo_unfederates_before_save:
  assumes priv: "p_privacy patch = Val newPrivacy"
    and had: "hasPrivacyForFederation m (inst w)"
    and inel: "\<not> isPrivacyForFederation m (Val (parseInt_toString m newPrivacy))"
    and run: "updateVideo fails m thumbnailModel previewModel channel patch w = (r, w')"
  shows "\<exists>v xs.
           log w' = log w @ xs
           \<and> v_privacy v = Val (parseInt_toString m newPrivacy)
           \<and> (\<bar>newPrivacy\<bar> < 10 ^ 21 \<longrightarrow> v_privacy v = Val newPrivacy)
           \<and> (fails BuildVideoThumbnailsFromReq
                \<longrightarrow> xs = [BuildVideoThumbnailsFromReq]
                  \<and> r = Inl (Thrown BuildVideoThumbnailsFromReq))
           \<and> (\<not> fails BuildVideoThumbnailsFromReq \<and> fails (SendDelete v)
                \<longrightarrow> xs = [BuildVideoThumbnailsFromReq, TxBegin, SendDelete v, TxRollback]
                  \<and> r = Inl (Thrown (SendDelete v)))
           \<and> (\<not> fails BuildVideoThumbnailsFromReq \<and> \<not> fails (SendDelete v)
                \<longrightarrow> (\<exists>rest. xs = [BuildVideoThumbnailsFromReq, TxBegin, SendDelete v, VideoSave v]
                                  @ rest
                       \<and> (\<forall>c \<in> set rest. c \<noteq> TxBegin
                                            \<and> (\<forall>u. c \<noteq> SendDelete u \<and> c \<noteq> VideoSave u))
                       \<and> (fails (VideoSave v)
                            \<longrightarrow> rest = [TxRollback] \<and> r = Inl (Thrown (VideoSave v)))))
           \<and> (r = Inr ()
                \<longrightarrow> (\<exists>mid after.
                       xs = [BuildVideoThumbnailsFromReq, TxBegin, SendDelete v, VideoSave v]
                              @ mid @ TxCommit # after
                       \<and> TxCommit \<notin> set mid \<and> TxRollback \<notin> set mid
                       \<and> TxRollback \<notin> set after)
                  \<and> v_privacy (inst w') = Val (parseInt_toString m newPrivacy))
           \<and> ((\<forall>c. \<not> fails c) \<longrightarrow> r = Inr ())"
proof -
  let ?B = BuildVideoThumbnailsFromReq
  let ?w0 = "w\<lparr>log := log w @ [?B, TxBegin]\<rparr>"
  let ?v1 = "privApply m patch (applyFields patch (inst w))"
  let ?had = "hasPrivacyForFederation m (inst w)"
  let ?up = "fst (updatePrivacy fails m ?had patch (?w0\<lparr>inst := applyFields patch (inst ?w0)\<rparr>))"
  have pv: "v_privacy ?v1 = Val (parseInt_toString m newPrivacy)"
    by (simp add: privApply_privacy priv)
  then have pr: "\<bar>newPrivacy\<bar> < 10 ^ 21 \<longrightarrow> v_privacy ?v1 = Val newPrivacy"
    by (simp add: parseInt_toString_def)
  from pv inel have nofed: "\<not> hasPrivacyForFederation m ?v1"
    by (simp add: hasPrivacyForFederation_def)
  with had priv have pc: "privCalls m ?had patch ?v1 = [SendDelete ?v1]"
    by (simp add: privCalls_def)
  from priv had nofed
  have up: "?up = (if fails (SendDelete ?v1) then Inl (Thrown (SendDelete ?v1))
                   else Inr (isNewVideo m (applyFields patch (inst w)) newPrivacy))"
    by (simp add: updatePrivacy_result)
  have tot: "(\<forall>c. \<not> fails c) \<longrightarrow> r = Inr ()"
  proof
    assume "\<forall>c. \<not> fails c"
    moreover from priv have "p_privacy patch \<noteq> Null"
      by simp
    ultimately
    have "fst (updateVideo fails m thumbnailModel previewModel channel patch w) = Inr ()"
      by (rule updateVideo_total)
    with run show "r = Inr ()"
      by simp
  qed
  from run show ?thesis
  proof (cases rule: updateVideo_cases)
    case build
    with pv pr tot show ?thesis
      by (intro exI[of _ ?v1] exI[of _ "[?B]"]) auto
  next
    case (fail rb wb ys)
    from body_shape[OF fail(1)] obtain us where
      lg: "log wb = log ?w0 @ privCalls m ?had patch ?v1 @ us"
      and us: "((\<exists>e. ?up = Inl e \<and> rb = Inl e) \<and> us = [])
               \<or> ((\<exists>b. ?up = Inr b)
                  \<and> (\<exists>zs. us = VideoSave ?v1 # zs \<and> (\<forall>c \<in> set zs. \<not> noisy c)
                         \<and> (fails (VideoSave ?v1)
                              \<longrightarrow> zs = [] \<and> rb = Inl (Thrown (VideoSave ?v1)))))"
      by auto
    from us show ?thesis
    proof (elim disjE conjE exE)
      fix e
      assume e: "?up = Inl e" "rb = Inl e" and "us = []"
      with up have sd: "fails (SendDelete ?v1)" "e = Thrown (SendDelete ?v1)"
        by (simp_all split: if_splits)
      with e fail(5) have "ys = [TxRollback]" "r = Inl (Thrown (SendDelete ?v1))"
        by simp_all
      with fail(4) lg pc \<open>us = []\<close> have "log w' = log w @ [?B, TxBegin, SendDelete ?v1, TxRollback]"
        by simp
      with pv pr sd \<open>r = Inl (Thrown (SendDelete ?v1))\<close> fail(6) show ?thesis
        by (intro exI[of _ ?v1] exI[of _ "[?B, TxBegin, SendDelete ?v1, TxRollback]"]) auto
    next
      fix b zs
      assume b: "?up = Inr b" and usz: "us = VideoSave ?v1 # zs"
        and zs: "\<forall>c \<in> set zs. \<not> noisy c"
        and sv: "fails (VideoSave ?v1) \<longrightarrow> zs = [] \<and> rb = Inl (Thrown (VideoSave ?v1))"
      from b up have nsd: "\<not> fails (SendDelete ?v1)"
        by (simp split: if_splits)
      from fail(4) lg pc usz
      have lw: "log w' = log w @ [?B, TxBegin, SendDelete ?v1, VideoSave ?v1] @ (zs @ ys)"
        by simp
      have rest: "\<forall>c \<in> set (zs @ ys). c \<noteq> TxBegin \<and> (\<forall>u. c \<noteq> SendDelete u \<and> c \<noteq> VideoSave u)"
        using zs fail(2) by (auto simp: noisy_def)
      have svf: "fails (VideoSave ?v1) \<longrightarrow> zs @ ys = [TxRollback] \<and> r = Inl (Thrown (VideoSave ?v1))"
        using sv fail(5) by simp
      from fail(3) have nr: "r \<noteq> Inr ()"
        by auto
      from lw pv pr nsd rest svf nr tot fail(6) show ?thesis
        by (intro exI[of _ ?v1] exI[of _ "[?B, TxBegin, SendDelete ?v1, VideoSave ?v1] @ (zs @ ys)"])
           (simp del: append_assoc set_append)
    qed
  next
    case (ok wb zs)
    from body_run[OF ok(1)] obtain ys k mid where
      lg: "log wb = log ?w0 @ privCalls m ?had patch ?v1 @ ys"
      and ys: "ys = VideoSave ?v1 # mid" and mid: "\<forall>c \<in> set mid. \<not> noisy c"
      and iw: "inst wb = ?v1\<lparr>v_channelId := k\<rparr>"
      by auto
    from body_shape[OF ok(1)] up have nsd: "\<not> fails (SendDelete ?v1)"
      by (auto split: if_splits)
    from body_shape[OF ok(1)] lg ys have nsv: "\<not> fails (VideoSave ?v1)"
      by auto
    from mid have m1: "TxCommit \<notin> set mid" "TxRollback \<notin> set mid"
      by (auto simp: noisy_def)
    from ok(2) have m2: "TxRollback \<notin> set zs"
      by (auto simp: noisy_def)
    have rest: "\<forall>c \<in> set (mid @ TxCommit # zs).
                  c \<noteq> TxBegin \<and> (\<forall>u. c \<noteq> SendDelete u \<and> c \<noteq> VideoSave u)"
      using mid ok(2) by (auto simp: noisy_def)
    from ok(4) lg ys pc
    have lw: "log w' = log w @ [?B, TxBegin, SendDelete ?v1, VideoSave ?v1] @ (mid @ TxCommit # zs)"
      by simp
    from ok(4) iw pv have pw: "v_privacy (inst w') = Val (parseInt_toString m newPrivacy)"
      by simp
    have ex: "\<exists>mid' after.
               [?B, TxBegin, SendDelete ?v1, VideoSave ?v1] @ (mid @ TxCommit # zs)
                 = [?B, TxBegin, SendDelete ?v1, VideoSave ?v1] @ mid' @ TxCommit # after
               \<and> TxCommit \<notin> set mid' \<and> TxRollback \<notin> set mid' \<and> TxRollback \<notin> set after"
      using m1 m2 by (intro exI[of _ mid] exI[of _ zs]) simp
    from lw pv pr nsd nsv rest ex pw ok(3) ok(5) show ?thesis
      by (intro exI[of _ ?v1] exI[of _ "[?B, TxBegin, SendDelete ?v1, VideoSave ?v1]
                                         @ (mid @ TxCommit # zs)"])
         (simp del: append_assoc set_append)
  qed
qed

lemma privCalls_sub: "set (privCalls m had p v) \<subseteq> {SendDelete v}"
  by (cases "p_privacy p") (auto simp: privCalls_def)

lemma updateVideo_shape:
  assumes run: "updateVideo fails m th pr ch p w = (r, w')"
  shows "\<exists>xs. log w' = log w @ xs
           \<and> (\<forall>v. VideoSave v \<in> set xs \<longrightarrow> v = privApply m p (applyFields p (inst w)))
           \<and> (inst w' = inst w
                \<or> (r = Inr () \<and> (\<exists>k. inst w' = (privApply m p (applyFields p (inst w)))\<lparr>v_channelId := k\<rparr>
                                     \<and> (k = v_channelId (inst w) \<or> ch = Some k))))
           \<and> (r = Inr () \<and> p_scheduleUpdate p = Null
                \<longrightarrow> ScheduleDeleteByVideoId (v_id (inst w)) \<in> set xs)"
  using run
proof (cases rule: updateVideo_cases)
  case build
  then show ?thesis by (intro exI[of _ "[BuildVideoThumbnailsFromReq]"]) simp
next
  case (fail rb wb ys)
  let ?B = BuildVideoThumbnailsFromReq
  let ?w0 = "w\<lparr>log := log w @ [?B, TxBegin]\<rparr>"
  let ?v1 = "privApply m p (applyFields p (inst w))"
  let ?had = "hasPrivacyForFederation m (inst w)"
  from body_run[OF fail(1)] obtain us where
    lg: "log wb = log ?w0 @ privCalls m ?had p ?v1 @ us"
    and us: "\<forall>c \<in> set us. c = VideoSave ?v1 \<or> \<not> noisy c"
    by auto
  have "\<forall>v. VideoSave v \<in> set ([?B, TxBegin] @ privCalls m ?had p ?v1 @ us @ ys) \<longrightarrow> v = ?v1"
    using us fail(2) privCalls_sub[of m ?had p ?v1] by (auto simp: noisy_def)
  with lg fail(3,4) show ?thesis
    by (intro exI[of _ "[?B, TxBegin] @ privCalls m ?had p ?v1 @ us @ ys"]) auto
next
  case (ok wb zs)
  let ?B = BuildVideoThumbnailsFromReq
  let ?w0 = "w\<lparr>log := log w @ [?B, TxBegin]\<rparr>"
  let ?v1 = "privApply m p (applyFields p (inst w))"
  let ?had = "hasPrivacyForFederation m (inst w)"
  from body_run[OF ok(1)] obtain us k where
    lg: "log wb = log ?w0 @ privCalls m ?had p ?v1 @ us"
    and us: "\<forall>c \<in> set us. c = VideoSave ?v1 \<or> \<not> noisy c"
    and iw: "inst wb = ?v1\<lparr>v_channelId := k\<rparr>" "k = v_channelId (inst w) \<or> ch = Some k"
    by auto
  have vs: "\<forall>v. VideoSave v \<in> set ([?B, TxBegin] @ privCalls m ?had p ?v1 @ us @ TxCommit # zs)
              \<longrightarrow> v = ?v1"
    using us ok(2) privCalls_sub[of m ?had p ?v1] by (auto simp: noisy_def)
  have sched: "p_scheduleUpdate p = Null \<longrightarrow>
      ScheduleDeleteByVideoId (v_id (inst w))
        \<in> set ([?B, TxBegin] @ privCalls m ?had p ?v1 @ us @ TxCommit # zs)"
  proof
    assume "p_scheduleUpdate p = Null"
    from body_schedule[OF ok(1) this] obtain xs where
      "log wb = log ?w0 @ xs" "ScheduleDeleteByVideoId (v_id (inst ?w0)) \<in> set xs"
      by blast
    with lg show "ScheduleDeleteByVideoId (v_id (inst w))
        \<in> set ([?B, TxBegin] @ privCalls m ?had p ?v1 @ us @ TxCommit # zs)"
      by auto
  qed
  from lg ok(3,4) iw vs sched show ?thesis
    by (intro exI[of _ "[?B, TxBegin] @ privCalls m ?had p ?v1 @ us @ TxCommit # zs"]) auto
qed

lemma updateVideo_null_as_absent:
  "p_originallyPublishedAt p = Null \<Longrightarrow>
     updateVideo fails m th pr ch p = updateVideo fails m th pr ch (p\<lparr>p_originallyPublishedAt := Undefined\<rparr>)"
  by (simp add: updateVideo_def updateVideo_body_def updateFields_def updatePrivacy_def
      updateSchedule_def split del: if_split cong del: if_weak_cong)

text \<open>
  Claim C10. With \<open>originallyPublishedAt: null\<close> in the patch, \<open>updateVideo\<close> runs
  exactly as with the field absent; the originally-published timestamp of the descriptor
  is unchanged, in memory and in every descriptor sent to \<open>save\<close>. By contrast, a
  \<open>scheduleUpdate: null\<close> makes a successful run delete the scheduled change. Every
  field that the patch does not mention is unchanged.
\<close>

theorem updateVideo_null_originallyPublishedAt:
  assumes null: "p_originallyPublishedAt patch = Null"
    and run: "updateVideo fails m thumbnailModel previewModel channel patch w = (r, w')"
  shows "updateVideo fails m thumbnailModel previewModel channel
           (patch\<lparr>p_originallyPublishedAt := Undefined\<rparr>) w = (r, w')
       \<and> v_originallyPublishedAt (inst w') = v_originallyPublishedAt (inst w)
       \<and> (\<exists>xs. log w' = log w @ xs
             \<and> (\<forall>v. VideoSave v \<in> set xs
                    \<longrightarrow> v_originallyPublishedAt v = v_originallyPublishedAt (inst w))
             \<and> (r = Inr () \<and> p_scheduleUpdate patch = Null
                    \<longrightarrow> ScheduleDeleteByVideoId (v_id (inst w)) \<in> set xs))
       \<and> (p_name patch = Undefined \<longrightarrow> v_name (inst w') = v_name (inst w))
       \<and> (p_category patch = Undefined \<longrightarrow> v_category (inst w') = v_category (inst w))
       \<and> (p_licence patch = Undefined \<longrightarrow> v_licence (inst w') = v_licence (inst w))
       \<and> (p_language patch = Undefined \<longrightarrow> v_language (inst w') = v_language (inst w))
       \<and> (p_nsfw patch = Undefined \<longrightarrow> v_nsfw (inst w') = v_nsfw (inst w))
       \<and> (p_waitTranscoding patch = Undefined
             \<longrightarrow> v_waitTranscoding (inst w') = v_waitTranscoding (inst w))
       \<and> (p_support patch = Undefined \<longrightarrow> v_support (inst w') = v_support (inst w))
       \<and> (p_description patch = Undefined \<longrightarrow> v_description (inst w') = v_description (inst w))
       \<and> (p_commentsEnabled patch = Undefined
             \<longrightarrow> v_commentsEnabled (inst w') = v_commentsEnabled (inst w))
       \<and> (p_downloadEnabled patch = Undefined
             \<longrightarrow> v_downloadEnabled (inst w') = v_downloadEnabled (inst w))
       \<and> (p_privacy patch = Undefined \<longrightarrow> v_privacy (inst w') = v_privacy (inst w))
       \<and> (channel = None \<longrightarrow> v_channelId (inst w') = v_channelId (inst w))
       \<and> v_id (inst w') = v_id (inst w) \<and> v_uuid (inst w') = v_uuid (inst w)
       \<and> v_url (inst w') = v_url (inst w) \<and> v_isLive (inst w') = v_isLive (inst w)
       \<and> v_remote (inst w') = v_remote (inst w) \<and> v_state (inst w') = v_state (inst w)
       \<and> v_duration (inst w') = v_duration (inst w)"
proof -
  let ?v1 = "privApply m patch (applyFields patch (inst w))"
  have same: "updateVideo fails m thumbnailModel previewModel channel
           (patch\<lparr>p_originallyPublishedAt := Undefined\<rparr>) w = (r, w')"
    using updateVideo_null_as_absent[OF null, of fails m thumbnailModel previewModel channel] run
    by simp
  have pub: "v_originallyPublishedAt ?v1 = v_originallyPublishedAt (inst w)"
    by (simp add: privApply_frame applyFields_fields null)
  from updateVideo_shape[OF run] obtain xs where
    lg: "log w' = log w @ xs"
    and vs: "\<forall>v. VideoSave v \<in> set xs \<longrightarrow> v = ?v1"
    and iw: "inst w' = inst w
             \<or> (\<exists>k. inst w' = ?v1\<lparr>v_channelId := k\<rparr> \<and> (k = v_channelId (inst w) \<or> channel = Some k))"
    and sc: "r = Inr () \<and> p_scheduleUpdate patch = Null
               \<longrightarrow> ScheduleDeleteByVideoId (v_id (inst w)) \<in> set xs"
    by blast
  have logs: "\<exists>xs. log w' = log w @ xs
             \<and> (\<forall>v. VideoSave v \<in> set xs
                    \<longrightarrow> v_originallyPublishedAt v = v_originallyPublishedAt (inst w))
             \<and> (r = Inr () \<and> p_scheduleUpdate patch = Null
                    \<longrightarrow> ScheduleDeleteByVideoId (v_id (inst w)) \<in> set xs)"
    using lg vs sc pub by (intro exI[of _ xs]) auto
  from iw have fields:
    "v_originallyPublishedAt (inst w') = v_originallyPublishedAt (inst w)"
    "p_name patch = Undefined \<longrightarrow> v_name (inst w') = v_name (inst w)"
    "p_category patch = Undefined \<longrightarrow> v_category (inst w') = v_category (inst w)"
    "p_licence patch = Undefined \<longrightarrow> v_licence (inst w') = v_licence (inst w)"
    "p_language patch = Undefined \<longrightarrow> v_language (inst w') = v_language (inst w)"
    "p_nsfw patch = Undefined \<longrightarrow> v_nsfw (inst w') = v_nsfw (inst w)"
    "p_waitTranscoding patch = Undefined
       \<longrightarrow> v_waitTranscoding (inst w') = v_waitTranscoding (inst w)"
    "p_support patch = Undefined \<longrightarrow> v_support (inst w') = v_support (inst w)"
    "p_description patch = Undefined \<longrightarrow> v_description (inst w') = v_description (inst w)"
    "p_commentsEnabled patch = Undefined
       \<longrightarrow> v_commentsEnabled (inst w') = v_commentsEnabled (inst w)"
    "p_downloadEnabled patch = Undefined
       \<longrightarrow> v_downloadEnabled (inst w') = v_downloadEnabled (inst w)"
    "p_privacy patch = Undefined \<longrightarrow> v_privacy (inst w') = v_privacy (inst w)"
    "channel = None \<longrightarrow> v_channelId (inst w') = v_channelId (inst w)"
    "v_id (inst w') = v_id (inst w)" "v_uuid (inst w') = v_uuid (inst w)"
    "v_url (inst w') = v_url (inst w)" "v_isLive (inst w') = v_isLive (inst w)"
    "v_remote (inst w') = v_remote (inst w)" "v_state (inst w') = v_state (inst w)"
    "v_duration (inst w') = v_duration (inst w)"
    using pub
    by (auto simp: privApply_frame privApply_privacy applyFields_frame applyFields_fields)
  from same logs fields show ?thesis by blast
qed

text \<open>
  Witness for C7: a public video is made private, in a run where nothing fails, in runs
  where the retract, \<open>save\<close> or the thumbnails fail, and with the privacy
  \<open>3 * 10^21\<close>, printed as \<open>3e+21\<close>, of which the code stores 3.
\<close>

theorem updateVideo_unfederates_before_save_witness:
  "p_privacy (noPatch\<lparr>p_privacy := Val 3\<rparr>) = Val 3
   \<and> \<bar>3 :: int\<bar> < 10 ^ 21
   \<and> hasPrivacyForFederation publicOrUnlisted (inst sampleWorld)
   \<and> \<not> isPrivacyForFederation publicOrUnlisted (Val (parseInt_toString publicOrUnlisted 3))
   \<and> updateVideo neverFails publicOrUnlisted Undefined Undefined None
        (noPatch\<lparr>p_privacy := Val 3\<rparr>) sampleWorld =
       (Inr (),
        \<lparr>log = [BuildVideoThumbnailsFromReq, TxBegin,
                SendDelete (sampleVideo\<lparr>v_privacy := Val 3\<rparr>),
                VideoSave (sampleVideo\<lparr>v_privacy := Val 3\<rparr>),
                AutoBlacklistVideoIfNeeded False, FederateVideoIfNeeded False,
                AuditLog ''videos'', LoggerInfo ''Video updated.'', TxCommit,
                RunAction ''action:api.video.updated''],
         resp = Some \<lparr>r_status = NO_CONTENT_204, r_body = NoBody\<rparr>,
         inst = (sampleVideo\<lparr>v_privacy := Val 3\<rparr>)\<rparr>)
   \<and> updateVideo retractFails publicOrUnlisted Undefined Undefined None
        (noPatch\<lparr>p_privacy := Val 3\<rparr>) sampleWorld =
       (Inl (Thrown (SendDelete (sampleVideo\<lparr>v_privacy := Val 3\<rparr>))),
        sampleWorld\<lparr>log := [BuildVideoThumbnailsFromReq, TxBegin,
                             SendDelete (sampleVideo\<lparr>v_privacy := Val 3\<rparr>), TxRollback]\<rparr>)
   \<and> updateVideo saveFails publicOrUnlisted Undefined Undefined None
        (noPatch\<lparr>p_privacy := Val 3\<rparr>) sampleWorld =
       (Inl (Thrown (VideoSave (sampleVideo\<lparr>v_privacy := Val 3\<rparr>))),
        sampleWorld\<lparr>log := [BuildVideoThumbnailsFromReq, TxBegin,
                             SendDelete (sampleVideo\<lparr>v_privacy := Val 3\<rparr>),
                             VideoSave (sampleVideo\<lparr>v_privacy := Val 3\<rparr>), TxRollback]\<rparr>)
   \<and> updateVideo thumbnailsFail publicOrUnlisted Undefined Undefined None
        (noPatch\<lparr>p_privacy := Val 3\<rparr>) sampleWorld =
       (Inl (Thrown BuildVideoThumbnailsFromReq),
        sampleWorld\<lparr>log := [BuildVideoThumbnailsFromReq]\<rparr>)
   \<and> (\<exists>v mid after.
         log (snd (updateVideo neverFails publicOrUnlisted Undefined Undefined None
                     (noPatch\<lparr>p_privacy := Val 3\<rparr>) sampleWorld)) =
           log sampleWorld @ [BuildVideoThumbnailsFromReq, TxBegin, SendDelete v, VideoSave v]
             @ mid @ TxCommit # after
         \<and> TxCommit \<notin> set mid \<and> TxRollback \<notin> set mid \<and> TxRollback \<notin> set after
         \<and> v_privacy v = Val 3)
   \<and> (\<exists>v. log (snd (updateVideo retractFails publicOrUnlisted Undefined Undefined None
                     (noPatch\<lparr>p_privacy := Val 3\<rparr>) sampleWorld)) =
             log sampleWorld @ [BuildVideoThumbnailsFromReq, TxBegin, SendDelete v, TxRollback]
           \<and> v_privacy v = Val 3)
   \<and> (\<exists>v. log (snd (updateVideo saveFails publicOrUnlisted Undefined Undefined None
                     (noPatch\<lparr>p_privacy := Val 3\<rparr>) sampleWorld)) =
             log sampleWorld @ [BuildVideoThumbnailsFromReq, TxBegin, SendDelete v, VideoSave v,
                                TxRollback]
           \<and> v_privacy v = Val 3)
   \<and> log (snd (updateVideo thumbnailsFail publicOrUnlisted Undefined Undefined None
                 (noPatch\<lparr>p_privacy := Val 3\<rparr>) sampleWorld)) =
       log sampleWorld @ [BuildVideoThumbnailsFromReq]
   \<and> p_privacy (noPatch\<lparr>p_privacy := Val 3000000000000000000000\<rparr>) = Val 3000000000000000000000
   \<and> parseInt_toString publicOrUnlisted 3000000000000000000000 = 3
   \<and> updateVideo neverFails publicOrUnlisted Undefined Undefined None
        (noPatch\<lparr>p_privacy := Val 3000000000000000000000\<rparr>) sampleWorld =
       (Inr (),
        \<lparr>log = [BuildVideoThumbnailsFromReq, TxBegin,
                SendDelete (sampleVideo\<lparr>v_privacy := Val 3\<rparr>),
                VideoSave (sampleVideo\<lparr>v_privacy := Val 3\<rparr>),
                AutoBlacklistVideoIfNeeded False, FederateVideoIfNeeded False,
                AuditLog ''videos'', LoggerInfo ''Video updated.'', TxCommit,
                RunAction ''action:api.video.updated''],
         resp = Some \<lparr>r_status = NO_CONTENT_204, r_body = NoBody\<rparr>,
         inst = (sampleVideo\<lparr>v_privacy := Val 3\<rparr>)\<rparr>)
   \<and> (\<exists>v mid after.
         log (snd (updateVideo neverFails publicOrUnlisted Undefined Undefined None
                     (noPatch\<lparr>p_privacy := Val 3000000000000000000000\<rparr>) sampleWorld)) =
           log sampleWorld @ [BuildVideoThumbnailsFromReq, TxBegin, SendDelete v, VideoSave v]
             @ mid @ TxCommit # after
         \<and> TxCommit \<notin> set mid \<and> TxRollback \<notin> set mid \<and> TxRollback \<notin> set after
         \<and> v_privacy v = Val 3)"
proof -
  let ?p = "noPatch\<lparr>p_privacy := Val 3\<rparr>"
  let ?q = "noPatch\<lparr>p_privacy := Val 3000000000000000000000\<rparr>"
  let ?ok = "updateVideo neverFails publicOrUnlisted Undefined Undefined None ?p sampleWorld"
  let ?retract = "updateVideo retractFails publicOrUnlisted Undefined Undefined None ?p sampleWorld"
  let ?save = "updateVideo saveFails publicOrUnlisted Undefined Undefined None ?p sampleWorld"
  let ?build = "updateVideo thumbnailsFail publicOrUnlisted Undefined Undefined None ?p sampleWorld"
  let ?big = "updateVideo neverFails publicOrUnlisted Undefined Undefined None ?q sampleWorld"
  note defs = update_defs prog_defs publicOrUnlisted_def noPatch_def sampleWorld_def
    sampleVideo_def
  have p: "p_privacy ?p = Val 3"
    by simp
  have range: "\<bar>3 :: int\<bar> < 10 ^ 21"
    by simp
  have had: "hasPrivacyForFederation publicOrUnlisted (inst sampleWorld)"
    by (simp add: hasPrivacyForFederation_def publicOrUnlisted_def sampleWorld_def sampleVideo_def)
  have inel: "\<not> isPrivacyForFederation publicOrUnlisted
                  (Val (parseInt_toString publicOrUnlisted 3))"
    by (simp add: publicOrUnlisted_def parseInt_toString_def)
  have run_ok: "?ok =
       (Inr (),
        \<lparr>log = [BuildVideoThumbnailsFromReq, TxBegin,
                SendDelete (sampleVideo\<lparr>v_privacy := Val 3\<rparr>),
                VideoSave (sampleVideo\<lparr>v_privacy := Val 3\<rparr>),
                AutoBlacklistVideoIfNeeded False, FederateVideoIfNeeded False,
                AuditLog ''videos'', LoggerInfo ''Video updated.'', TxCommit,
                RunAction ''action:api.video.updated''],
         resp = Some \<lparr>r_status = NO_CONTENT_204, r_body = NoBody\<rparr>,
         inst = (sampleVideo\<lparr>v_privacy := Val 3\<rparr>)\<rparr>)"
    by (simp add: defs neverFails_def)
  have run_retract: "?retract =
       (Inl (Thrown (SendDelete (sampleVideo\<lparr>v_privacy := Val 3\<rparr>))),
        sampleWorld\<lparr>log := [BuildVideoThumbnailsFromReq, TxBegin,
                             SendDelete (sampleVideo\<lparr>v_privacy := Val 3\<rparr>), TxRollback]\<rparr>)"
    by (simp add: defs retractFails_def)
  have run_save: "?save =
       (Inl (Thrown (VideoSave (sampleVideo\<lparr>v_privacy := Val 3\<rparr>))),
        sampleWorld\<lparr>log := [BuildVideoThumbnailsFromReq, TxBegin,
                             SendDelete (sampleVideo\<lparr>v_privacy := Val 3\<rparr>),
                             VideoSave (sampleVideo\<lparr>v_privacy := Val 3\<rparr>), TxRollback]\<rparr>)"
    by (simp add: defs saveFails_def)
  have run_build: "?build =
       (Inl (Thrown BuildVideoThumbnailsFromReq),
        sampleWorld\<lparr>log := [BuildVideoThumbnailsFromReq]\<rparr>)"
    by (simp add: defs thumbnailsFail_def)
  have "?ok = (fst ?ok, snd ?ok)"
    by simp
  from updateVideo_unfederates_before_save[OF p had inel this] run_ok range
  have c_ok: "\<exists>v mid after.
         log (snd ?ok) =
           log sampleWorld @ [BuildVideoThumbnailsFromReq, TxBegin, SendDelete v, VideoSave v]
             @ mid @ TxCommit # after
         \<and> TxCommit \<notin> set mid \<and> TxRollback \<notin> set mid \<and> TxRollback \<notin> set after
         \<and> v_privacy v = Val 3"
    by auto
  have "?retract = (fst ?retract, snd ?retract)"
    by simp
  from updateVideo_unfederates_before_save[OF p had inel this] range
  have c_retract: "\<exists>v. log (snd ?retract) =
             log sampleWorld @ [BuildVideoThumbnailsFromReq, TxBegin, SendDelete v, TxRollback]
           \<and> v_privacy v = Val 3"
    by (auto simp: retractFails_def)
  have "?save = (fst ?save, snd ?save)"
    by simp
  from updateVideo_unfederates_before_save[OF p had inel this] range
  have c_save: "\<exists>v. log (snd ?save) =
             log sampleWorld @ [BuildVideoThumbnailsFromReq, TxBegin, SendDelete v, VideoSave v,
                                TxRollback]
           \<and> v_privacy v = Val 3"
    by (auto simp: saveFails_def)
  have "?build = (fst ?build, snd ?build)"
    by simp
  from updateVideo_unfederates_before_save[OF p had inel this]
  have c_build: "log (snd ?build) = log sampleWorld @ [BuildVideoThumbnailsFromReq]"
    by (auto simp: thumbnailsFail_def)
  have q: "p_privacy ?q = Val 3000000000000000000000"
    by simp
  have stored: "parseInt_toString publicOrUnlisted 3000000000000000000000 = 3"
    by (simp add: parseInt_toString_def publicOrUnlisted_def leadingDigit.simps)
  have inel_big: "\<not> isPrivacyForFederation publicOrUnlisted
                      (Val (parseInt_toString publicOrUnlisted 3000000000000000000000))"
    by (simp add: stored) (simp add: publicOrUnlisted_def)
  have run_big: "?big =
       (Inr (),
        \<lparr>log = [BuildVideoThumbnailsFromReq, TxBegin,
                SendDelete (sampleVideo\<lparr>v_privacy := Val 3\<rparr>),
                VideoSave (sampleVideo\<lparr>v_privacy := Val 3\<rparr>),
                AutoBlacklistVideoIfNeeded False, FederateVideoIfNeeded False,
                AuditLog ''videos'', LoggerInfo ''Video updated.'', TxCommit,
                RunAction ''action:api.video.updated''],
         resp = Some \<lparr>r_status = NO_CONTENT_204, r_body = NoBody\<rparr>,
         inst = (sampleVideo\<lparr>v_privacy := Val 3\<rparr>)\<rparr>)"
    using stored by (simp add: defs neverFails_def del: parseInt_toString_def)
  have "?big = (fst ?big, snd ?big)"
    by simp
  from updateVideo_unfederates_before_save[OF q had inel_big this] run_big stored
  have c_big: "\<exists>v mid after.
         log (snd ?big) =
           log sampleWorld @ [BuildVideoThumbnailsFromReq, TxBegin, SendDelete v, VideoSave v]
             @ mid @ TxCommit # after
         \<and> TxCommit \<notin> set mid \<and> TxRollback \<notin> set mid \<and> TxRollback \<notin> set after
         \<and> v_privacy v = Val 3"
    by auto
  from p range had inel run_ok run_retract run_save run_build c_ok c_retract c_save c_build
    q stored run_big c_big
  show ?thesis
    by (intro conjI)
qed

text \<open>
  Witness for C10: a patch with a new name, \<open>originallyPublishedAt: null\<close> and
  \<open>scheduleUpdate: null\<close>.
\<close>

theorem updateVideo_null_originallyPublishedAt_witness:
  "p_originallyPublishedAt (noPatch\<lparr>p_originallyPublishedAt := Null, p_scheduleUpdate := Null,
                                      p_name := Val ''new name''\<rparr>) = Null
   \<and> updateVideo neverFails publicOrUnlisted Undefined Undefined None
        (noPatch\<lparr>p_originallyPublishedAt := Null, p_scheduleUpdate := Null,
                  p_name := Val ''new name''\<rparr>) sampleWorld =
       (Inr (),
        \<lparr>log = [BuildVideoThumbnailsFromReq, TxBegin,
                VideoSave (sampleVideo\<lparr>v_name := Val ''new name''\<rparr>),
                ScheduleDeleteByVideoId (Val 7),
                AutoBlacklistVideoIfNeeded False, FederateVideoIfNeeded False,
                AuditLog ''videos'', LoggerInfo ''Video updated.'', TxCommit,
                RunAction ''action:api.video.updated''],
         resp = Some \<lparr>r_status = NO_CONTENT_204, r_body = NoBody\<rparr>,
         inst = sampleVideo\<lparr>v_name := Val ''new name''\<rparr>\<rparr>)
   \<and> v_originallyPublishedAt (inst (snd (updateVideo neverFails publicOrUnlisted Undefined
        Undefined None
        (noPatch\<lparr>p_originallyPublishedAt := Null, p_scheduleUpdate := Null,
                  p_name := Val ''new name''\<rparr>) sampleWorld))) = Val (NewDate ''2020-01-01'')
   \<and> v_privacy (inst (snd (updateVideo neverFails publicOrUnlisted Undefined Undefined None
        (noPatch\<lparr>p_originallyPublishedAt := Null, p_scheduleUpdate := Null,
                  p_name := Val ''new name''\<rparr>) sampleWorld))) = Val 1"
proof -
  let ?p = "noPatch\<lparr>p_originallyPublishedAt := Null, p_scheduleUpdate := Null,
                     p_name := Val ''new name''\<rparr>"
  have null: "p_originallyPublishedAt ?p = Null"
    by simp
  have priv: "p_privacy ?p = Undefined"
    by (simp add: noPatch_def)
  have run: "updateVideo neverFails publicOrUnlisted Undefined Undefined None ?p sampleWorld =
       (Inr (),
        \<lparr>log = [BuildVideoThumbnailsFromReq, TxBegin,
                VideoSave (sampleVideo\<lparr>v_name := Val ''new name''\<rparr>),
                ScheduleDeleteByVideoId (Val 7),
                AutoBlacklistVideoIfNeeded False, FederateVideoIfNeeded False,
                AuditLog ''videos'', LoggerInfo ''Video updated.'', TxCommit,
                RunAction ''action:api.video.updated''],
         resp = Some \<lparr>r_status = NO_CONTENT_204, r_body = NoBody\<rparr>,
         inst = sampleVideo\<lparr>v_name := Val ''new name''\<rparr>\<rparr>)"
    by (simp add: update_defs prog_defs neverFails_def publicOrUnlisted_def noPatch_def
        sampleWorld_def sampleVideo_def)
  have old: "v_originallyPublishedAt (inst sampleWorld) = Val (NewDate ''2020-01-01'')"
    "v_privacy (inst sampleWorld) = Val 1"
    by (simp_all add: sampleWorld_def sampleVideo_def)
  from updateVideo_null_originallyPublishedAt[OF null run] null priv run old
  show ?thesis
    by simp
qed

section \<open>createTorrentAndSetInfoHashAsync: the reloaded file record\<close>

text \<open>
  Claim C8. Once the torrent has been created and the file record reloaded by id: if the
  reload finds no record, the only further call is the removal of the torrent just
  created, no file record is saved, and no error leaves the torrent stage of
  \<open>addVideo\<close> (the function itself ends without error when the removal succeeds, and
  the \<open>catch\<close> attached to its call logs anything else); if the reload finds a
  record, what is saved is that record with the new info-hash and torrent filename, not
  the file object the function was given.
\<close>

theorem createTorrentAndSetInfoHashAsync_reload:
  assumes "\<not> fails (CreateTorrentAndSetInfoHash (f_id fileArg))"
    and "\<not> fails (LoadWithVideo (f_id fileArg))"
  shows "(reloaded = None \<longrightarrow>
            log (snd (createTorrentAndSetInfoHashAsync fails made reloaded fileArg w)) =
              log w @ [CreateTorrentAndSetInfoHash (f_id fileArg), LoadWithVideo (f_id fileArg),
                       RemoveTorrent (fileArg\<lparr>f_infoHash := Val (fst made),
                                              f_torrentFilename := Val (snd made)\<rparr>)]
          \<and> (\<not> fails (RemoveTorrent (fileArg\<lparr>f_infoHash := Val (fst made),
                                               f_torrentFilename := Val (snd made)\<rparr>))
               \<longrightarrow> fst (createTorrentAndSetInfoHashAsync fails made reloaded fileArg w) = Inr ())
          \<and> fst (addVideo_torrentStage fails made reloaded fileArg w) = Inr ()
          \<and> (\<forall>c \<in> set (log (snd (addVideo_torrentStage fails made reloaded fileArg w))).
                c \<in> set (log w) \<or> (\<forall>f. c \<noteq> VideoFileSave f)))
       \<and> (\<forall>refreshedFile. reloaded = Some refreshedFile \<longrightarrow>
            log (snd (createTorrentAndSetInfoHashAsync fails made reloaded fileArg w)) =
              log w @ [CreateTorrentAndSetInfoHash (f_id fileArg), LoadWithVideo (f_id fileArg),
                       VideoFileSave (refreshedFile\<lparr>f_infoHash := Val (fst made),
                                                    f_torrentFilename := Val (snd made)\<rparr>)])"
  using assms
  by (auto simp: createTorrentAndSetInfoHashAsync_def addVideo_torrentStage_def prog_defs Let_def)

text \<open>
  Witness for C8: the record is gone and even the removal fails; and the record was
  changed concurrently (its size) and is saved with that change kept.
\<close>

theorem createTorrentAndSetInfoHashAsync_reload_witness:
  "\<not> removeFails (CreateTorrentAndSetInfoHash (f_id staleFile))
   \<and> \<not> removeFails (LoadWithVideo (f_id staleFile))
   \<and> addVideo_torrentStage removeFails (''hash'', ''t.torrent'') None staleFile world0 =
       (Inr (),
        \<lparr>log = [CreateTorrentAndSetInfoHash 5, LoadWithVideo 5,
                RemoveTorrent (staleFile\<lparr>f_infoHash := Val ''hash'',
                                         f_torrentFilename := Val ''t.torrent''\<rparr>),
                LoggerError ''Cannot create torrent file for video''],
         resp = None\<rparr>)
   \<and> log (snd (createTorrentAndSetInfoHashAsync removeFails (''hash'', ''t.torrent'')
                 (Some freshFile) staleFile world0)) =
       [CreateTorrentAndSetInfoHash 5, LoadWithVideo 5,
        VideoFileSave \<lparr>f_id = 5, f_videoId = 7, f_extname = ''.mp4'', f_size = 250,
                       f_resolution = 720, f_infoHash = Val ''hash'',
                       f_torrentFilename = Val ''t.torrent''\<rparr>]"
proof -
  have c: "\<not> removeFails (CreateTorrentAndSetInfoHash (f_id staleFile))"
    and l: "\<not> removeFails (LoadWithVideo (f_id staleFile))"
    by (simp_all add: removeFails_def)
  have stage: "addVideo_torrentStage removeFails (''hash'', ''t.torrent'') None staleFile world0 =
       (Inr (),
        \<lparr>log = [CreateTorrentAndSetInfoHash 5, LoadWithVideo 5,
                RemoveTorrent (staleFile\<lparr>f_infoHash := Val ''hash'',
                                         f_torrentFilename := Val ''t.torrent''\<rparr>),
                LoggerError ''Cannot create torrent file for video''],
         resp = None\<rparr>)"
    by (simp add: createTorrentAndSetInfoHashAsync_def addVideo_torrentStage_def prog_defs
        Let_def removeFails_def staleFile_def world0_def)
  from createTorrentAndSetInfoHashAsync_reload[OF c l, of "Some freshFile"
      "(''hash'', ''t.torrent'')" world0]
  have "log (snd (createTorrentAndSetInfoHashAsync removeFails (''hash'', ''t.torrent'')
                 (Some freshFile) staleFile world0)) =
       [CreateTorrentAndSetInfoHash 5, LoadWithVideo 5,
        VideoFileSave \<lparr>f_id = 5, f_videoId = 7, f_extname = ''.mp4'', f_size = 250,
                       f_resolution = 720, f_infoHash = Val ''hash'',
                       f_torrentFilename = Val ''t.torrent''\<rparr>]"
    by (simp add: world0_def staleFile_def freshFile_def)
  with c l stage show ?thesis by simp
qed

end
